theory Spec2Isabelle
  imports Main "HOL-Library.Sublist"
begin

section \<open>Python values and string primitives used by scripts/render.py\<close>

text \<open>
  A descriptor file is read with \<open>yaml.safe_load\<close>; the values it yields are modelled by
  \<open>yaml\<close>: null, booleans, unbounded integers, strings, sequences and mappings. A mapping is
  the list of the items of the Python dict (its keys are distinct; lookup takes the first
  binding). Floats, timestamps and binary scalars are outside the model. Strings are
  \<open>string\<close>; the whitespace, case and line-break tables of Python are written out for the
  ASCII range.
\<close>

datatype yaml =
    YNull
  | YBool bool
  | YInt int
  | YStr string
  | YList "yaml list"
  | YMap "(string \<times> yaml) list"

datatype error =
    SystemExit string
  | AttributeError
  | TypeError
  | FileNotFoundError string

text \<open>Python truthiness: \<open>bool(v)\<close>, \<open>if v\<close>, \<open>not v\<close>.\<close>

fun truthy :: "yaml \<Rightarrow> bool" where
  "truthy YNull = False"
| "truthy (YBool b) = b"
| "truthy (YInt i) = (i \<noteq> 0)"
| "truthy (YStr s) = (s \<noteq> [])"
| "truthy (YList xs) = (xs \<noteq> [])"
| "truthy (YMap m) = (m \<noteq> [])"

text \<open>\<open>a or b\<close> on values.\<close>

definition py_or :: "yaml \<Rightarrow> yaml \<Rightarrow> yaml" where
  "py_or a b = (if truthy a then a else b)"

text \<open>\<open>d.get(key)\<close>: the value, or \<open>None\<close> when the key is absent.\<close>

definition dict_get :: "(string \<times> yaml) list \<Rightarrow> string \<Rightarrow> yaml" where
  "dict_get d k = (case map_of d k of None \<Rightarrow> YNull | Some v \<Rightarrow> v)"

definition digit_char :: "nat \<Rightarrow> char" where
  "digit_char n = ''0123456789'' ! n"

fun nat_digits :: "nat \<Rightarrow> string" where
  "nat_digits n = (if n < 10 then [digit_char n] else nat_digits (n div 10) @ [digit_char (n mod 10)])"

declare nat_digits.simps [simp del]

definition str_int :: "int \<Rightarrow> string" where
  "str_int i = (if i < 0 then ''-'' @ nat_digits (nat (- i)) else nat_digits (nat i))"

text \<open>
  \<open>str(v)\<close>, which is also what an f-string writes for \<open>{v}\<close>. The text Python prints for
  a sequence or a mapping (its \<open>repr\<close>) is taken as the parameter \<open>repr\<close>.
\<close>

fun py_str :: "(yaml \<Rightarrow> string) \<Rightarrow> yaml \<Rightarrow> string" where
  "py_str repr YNull = ''None''"
| "py_str repr (YBool b) = (if b then ''True'' else ''False'')"
| "py_str repr (YInt i) = str_int i"
| "py_str repr (YStr s) = s"
| "py_str repr (YList xs) = repr (YList xs)"
| "py_str repr (YMap m) = repr (YMap m)"

text \<open>\<open>type(v).__name__\<close>.\<close>

fun type_name :: "yaml \<Rightarrow> string" where
  "type_name YNull = ''NoneType''"
| "type_name (YBool b) = ''bool''"
| "type_name (YInt i) = ''int''"
| "type_name (YStr s) = ''str''"
| "type_name (YList xs) = ''list''"
| "type_name (YMap m) = ''dict''"

text \<open>\<open>str.isspace\<close> on one ASCII character: tab, LF, VT, FF, CR, FS, GS, RS, US, space.\<close>

definition is_space :: "char \<Rightarrow> bool" where
  "is_space c = (c \<in> set [CHR 0x09, CHR 0x0A, CHR 0x0B, CHR 0x0C, CHR 0x0D,
                           CHR 0x1C, CHR 0x1D, CHR 0x1E, CHR 0x1F, CHR 0x20])"

definition py_rstrip :: "string \<Rightarrow> string" where
  "py_rstrip s = rev (dropWhile is_space (rev s))"

definition py_strip :: "string \<Rightarrow> string" where
  "py_strip s = dropWhile is_space (py_rstrip s)"

definition lower_char :: "char \<Rightarrow> char" where
  "lower_char c =
     (case map_of (zip ''ABCDEFGHIJKLMNOPQRSTUVWXYZ'' ''abcdefghijklmnopqrstuvwxyz'') c of
        None \<Rightarrow> c | Some l \<Rightarrow> l)"

definition py_lower :: "string \<Rightarrow> string" where
  "py_lower s = map lower_char s"

text \<open>\<open>sub in s\<close> on strings.\<close>

fun py_in :: "string \<Rightarrow> string \<Rightarrow> bool" where
  "py_in sub [] = (sub = [])"
| "py_in sub (c # cs) = (prefix sub (c # cs) \<or> py_in sub cs)"

definition endswith :: "string \<Rightarrow> string \<Rightarrow> bool" where
  "endswith s suf = suffix suf s"

text \<open>\<open>sep.join(xs)\<close>.\<close>

fun join :: "string \<Rightarrow> string list \<Rightarrow> string" where
  "join sep [] = []"
| "join sep [x] = x"
| "join sep (x # y # ys) = x @ sep @ join sep (y # ys)"

text \<open>
  \<open>str.splitlines()\<close>: the ASCII line boundaries are LF, CR, CR LF, VT, FF, FS, GS and RS;
  a final line without a boundary is kept, and no empty line follows a final boundary.
  The first argument holds the characters of the current line, latest first.
\<close>

definition is_linebreak :: "char \<Rightarrow> bool" where
  "is_linebreak c = (c \<in> set [CHR 0x0A, CHR 0x0B, CHR 0x0C, CHR 0x0D, CHR 0x1C, CHR 0x1D, CHR 0x1E])"

fun splitlines_from :: "string \<Rightarrow> string \<Rightarrow> string list" where
  "splitlines_from cur [] = (if cur = [] then [] else [rev cur])"
| "splitlines_from cur (c # cs) =
     (if c = CHR 0x0D then
        (case cs of
           d # ds \<Rightarrow> if d = CHR 0x0A then rev cur # splitlines_from [] ds
                     else rev cur # splitlines_from [] cs
         | [] \<Rightarrow> rev cur # splitlines_from [] cs)
      else if is_linebreak c then rev cur # splitlines_from [] cs
      else splitlines_from (c # cur) cs)"

definition splitlines :: "string \<Rightarrow> string list" where
  "splitlines s = splitlines_from [] s"

text \<open>
  \<open>s.replace(old, new)\<close>: every non-overlapping occurrence of \<open>old\<close>, found from the left,
  becomes \<open>new\<close>; the inserted text is not scanned again. With an empty \<open>old\<close> Python
  writes \<open>new\<close> before every character and at the end.
\<close>

fun replace_from :: "string \<Rightarrow> string \<Rightarrow> nat \<Rightarrow> string \<Rightarrow> string" where
  "replace_from old new skip [] = []"
| "replace_from old new skip (c # cs) =
     (if 0 < skip then replace_from old new (skip - 1) cs
      else if prefix old (c # cs) then new @ replace_from old new (length old - 1) cs
      else c # replace_from old new 0 cs)"

definition py_replace :: "string \<Rightarrow> string \<Rightarrow> string \<Rightarrow> string" where
  "py_replace old new s =
     (if old = [] then new @ concat (map (\<lambda>c. c # new) s) else replace_from old new 0 s)"

section \<open>The location normalizer: parse_locations\<close>

record location =
  path :: string
  proxy_pass :: string
  extra :: string

definition truthy_words :: "string list" where
  "truthy_words = [''true'', ''yes'', ''1'', ''on'']"

text \<open>One mapping entry with a non-empty path, lines 75 to 98 of the loop body.\<close>

definition normalize_entry :: "(yaml \<Rightarrow> string) \<Rightarrow> string \<Rightarrow> (string \<times> yaml) list \<Rightarrow> location" where
  "normalize_entry repr default_proxy entry =
     (let proxy_pass_val = dict_get entry ''proxy_pass'';
          proxy0 = (if proxy_pass_val = YBool False then ''''
                    else if truthy proxy_pass_val then py_strip (py_str repr proxy_pass_val)
                    else default_proxy);
          strip_prefix = (case dict_get entry ''strip_prefix'' of
                            YStr s \<Rightarrow> py_lower s \<in> set truthy_words
                          | v \<Rightarrow> truthy v);
          proxy1 = (if strip_prefix \<and> proxy0 \<noteq> [] \<and> \<not> endswith proxy0 ''/''
                    then proxy0 @ ''/'' else proxy0);
          extra_val = py_or (dict_get entry ''extra'') (YStr '''')
      in \<lparr> path = py_strip (py_str repr (dict_get entry ''path'')),
           proxy_pass = proxy1,
           extra = py_rstrip (py_str repr extra_val) \<rparr>)"

text \<open>
  The loop over \<open>enumerate(raw_locations, 1)\<close>. The result is the normalized list and the
  lines printed to stderr, both in input order.
\<close>

fun parse_locations_loop ::
  "(yaml \<Rightarrow> string) \<Rightarrow> string \<Rightarrow> nat \<Rightarrow> yaml list \<Rightarrow> location list \<times> string list" where
  "parse_locations_loop repr default_proxy idx [] = ([], [])"
| "parse_locations_loop repr default_proxy idx (entry # rest) =
     (let (normalized, printed) = parse_locations_loop repr default_proxy (idx + 1) rest in
      case entry of
        YMap m \<Rightarrow>
          if \<not> truthy (dict_get m ''path'')
          then (normalized, (''Ignoring locations['' @ nat_digits idx @ ''] (missing path)'') # printed)
          else (normalize_entry repr default_proxy m # normalized, printed)
      | _ \<Rightarrow> (normalized, (''Ignoring locations['' @ nat_digits idx @ ''] (expected mapping)'') # printed))"

definition parse_locations ::
  "(yaml \<Rightarrow> string) \<Rightarrow> yaml \<Rightarrow> yaml \<Rightarrow> yaml \<Rightarrow> location list \<times> string list" where
  "parse_locations repr raw_locations upstream_host upstream_port =
     (if \<not> truthy raw_locations then ([], [])
      else case raw_locations of
        YList entries \<Rightarrow>
          parse_locations_loop repr
            (''http://'' @ py_str repr upstream_host @ '':'' @ py_str repr upstream_port) 1 entries
      | _ \<Rightarrow> ([], [''Ignoring locations because it is not a list'']))"

section \<open>The descriptor loader and validator: parse_service\<close>

text \<open>
  The dict that \<open>parse_service\<close> returns. Only \<open>UPSTREAM_PORT\<close> is converted with \<open>str\<close>;
  the other descriptor fields keep the value read from the file. The key \<open>TYPE\<close> is
  written \<open>SVC_TYPE\<close>.
\<close>

record service =
  NAME :: yaml
  DOMAIN :: yaml
  UPSTREAM_HOST :: yaml
  UPSTREAM_PORT :: string
  WORKING_DIR :: yaml
  USER :: yaml
  START_CMD :: yaml
  STOP_CMD :: yaml
  SVC_TYPE :: string
  REMAIN_AFTER_EXIT :: string
  RESTART :: string
  HEALTH_PATH :: yaml
  STATIC_ROOT :: yaml
  MIGRATE_CMD :: yaml
  ALLOW_PLAIN_HTTP :: bool
  LOCATIONS :: "location list"

text \<open>What reading and parsing the descriptor file gave: the exception's text, or the value.\<close>

datatype load_result = LoadFailed string | Loaded yaml

text \<open>The inner helper \<open>_get(key, default)\<close>.\<close>

definition get_field :: "(string \<times> yaml) list \<Rightarrow> string \<Rightarrow> yaml \<Rightarrow> yaml" where
  "get_field data key dflt =
     (let val = (case map_of data key of None \<Rightarrow> dflt | Some v \<Rightarrow> v)
      in if val \<noteq> YNull then val else dflt)"

text \<open>The inner helper \<open>_normalize_bool\<close>.\<close>

fun normalize_bool :: "yaml \<Rightarrow> bool" where
  "normalize_bool (YBool b) = b"
| "normalize_bool (YStr s) = (py_lower s \<in> set truthy_words)"
| "normalize_bool v = False"

text \<open>\<open>v in ('""', "''")\<close>: the two quoted-empty literals.\<close>

definition quoted_empty :: "yaml \<Rightarrow> bool" where
  \<open>quoted_empty v = (v = YStr ''""'' \<or> v = YStr [CHR 0x27, CHR 0x27])\<close>

text \<open>\<open>path.name\<close>: the last component of a path.\<close>

definition path_name :: "string \<Rightarrow> string" where
  "path_name p = rev (takeWhile (\<lambda>c. c \<noteq> CHR ''/'') (rev p))"

definition is_compose :: "string \<Rightarrow> bool" where
  "is_compose lowered =
     (py_in ''docker compose'' lowered \<or> py_in ''docker-compose'' lowered)"

text \<open>
  \<open>(start_cmd or "").lower()\<close>: a falsy value gives the empty string, a string is
  lower-cased, and any other truthy value has no method \<open>lower\<close>.
\<close>

definition start_cmd_lower :: "yaml \<Rightarrow> error + string" where
  "start_cmd_lower start_cmd =
     (case py_or start_cmd (YStr '''') of
        YStr s \<Rightarrow> Inr (py_lower s)
      | _ \<Rightarrow> Inl AttributeError)"

definition required_fields :: "(string \<times> yaml) list \<Rightarrow> (string \<times> yaml) list" where
  "required_fields data =
     [(''name'', get_field data ''name'' (YStr '''')),
      (''domain'', get_field data ''domain'' (YStr '''')),
      (''upstream_port'', get_field data ''upstream_port'' (YStr '''')),
      (''start_cmd'', get_field data ''start_cmd'' (YStr '''')),
      (''working_dir'', get_field data ''working_dir'' (YStr ''''))]"

definition missing_fields :: "(string \<times> yaml) list \<Rightarrow> string list" where
  "missing_fields data = map fst (filter (\<lambda>(k, v). \<not> truthy v) (required_fields data))"

text \<open>
  A skip: in strict mode the message is raised as \<open>SystemExit\<close>, otherwise it is printed
  to stderr (after what was printed before) and the function returns \<open>None\<close>.
\<close>

definition skip :: "bool \<Rightarrow> string list \<Rightarrow> string \<Rightarrow> string list \<times> (error + service option)" where
  "skip strict printed msg =
     (if strict then (printed, Inl (SystemExit msg)) else (printed @ [msg], Inr None))"

text \<open>The body of \<open>parse_service\<close> once the top-level value is known to be a mapping.\<close>

definition parse_mapping ::
  "(yaml \<Rightarrow> string) \<Rightarrow> bool \<Rightarrow> string \<Rightarrow> (string \<times> yaml) list \<Rightarrow>
   string list \<times> (error + service option)" where
  "parse_mapping repr strict p data =
     (let name = get_field data ''name'' (YStr '''');
          domain = get_field data ''domain'' (YStr '''');
          upstream_host = py_or (get_field data ''upstream_host'' (YStr '''')) (YStr ''127.0.0.1'');
          upstream_port = get_field data ''upstream_port'' (YStr '''');
          working_dir = get_field data ''working_dir'' (YStr '''');
          user = py_or (get_field data ''user'' (YStr '''')) (YStr ''www-data'');
          start_cmd = get_field data ''start_cmd'' (YStr '''');
          stop_cmd = py_or (get_field data ''stop_cmd'' (YStr '''')) (YStr ''/bin/true'');
          health_path = py_or (get_field data ''health_path'' (YStr '''')) (YStr ''/health'');
          static_root = get_field data ''static_root'' (YStr '''');
          migrate_cmd = get_field data ''migrate_cmd'' (YStr '''');
          allow_plain_http = normalize_bool (get_field data ''allow_plain_http'' (YStr ''''));
          (locations, printed) =
             parse_locations repr (get_field data ''locations'' (YList [])) upstream_host upstream_port
      in case start_cmd_lower start_cmd of
           Inl e \<Rightarrow> (printed, Inl e)
         | Inr lowered \<Rightarrow>
             (let compose = is_compose lowered;
                  static_root' = (if quoted_empty static_root then YStr '''' else static_root);
                  migrate_cmd' = (if quoted_empty migrate_cmd then YStr '''' else migrate_cmd);
                  stop_cmd' = (if quoted_empty stop_cmd \<or> stop_cmd = YStr ''''
                               then YStr ''/bin/true'' else stop_cmd);
                  missing = missing_fields data
              in if missing \<noteq> []
                 then skip strict printed
                        (''Skipping '' @ path_name p @ '': missing '' @ join '', '' missing)
                 else (printed, Inr (Some
                   \<lparr> NAME = name,
                     DOMAIN = domain,
                     UPSTREAM_HOST = upstream_host,
                     UPSTREAM_PORT = py_str repr upstream_port,
                     WORKING_DIR = working_dir,
                     USER = user,
                     START_CMD = start_cmd,
                     STOP_CMD = stop_cmd',
                     SVC_TYPE = (if compose then ''oneshot'' else ''simple''),
                     REMAIN_AFTER_EXIT = (if compose then ''yes'' else ''no''),
                     RESTART = (if compose then ''no'' else ''always''),
                     HEALTH_PATH = health_path,
                     STATIC_ROOT = py_or static_root' (YStr ''''),
                     MIGRATE_CMD = py_or migrate_cmd' (YStr ''''),
                     ALLOW_PLAIN_HTTP = allow_plain_http,
                     LOCATIONS = locations \<rparr>))))"

text \<open>
  \<open>parse_service(path, strict=...)\<close>: the lines printed to stderr, and either the exception
  raised or the value returned (\<open>None\<close> for a skipped descriptor).
\<close>

definition parse_service ::
  "(yaml \<Rightarrow> string) \<Rightarrow> bool \<Rightarrow> string \<Rightarrow> load_result \<Rightarrow> string list \<times> (error + service option)" where
  "parse_service repr strict p loaded =
     (case loaded of
        LoadFailed exc \<Rightarrow> skip strict [] (''Failed to parse '' @ p @ '': '' @ exc)
      | Loaded v \<Rightarrow>
          (case py_or v (YMap []) of
             YMap data \<Rightarrow> parse_mapping repr strict p data
           | other \<Rightarrow>
               skip strict [] (''Expected mapping in '' @ p @ '', got '' @ type_name other)))"

section \<open>The proxy/static block builder: build_nginx_blocks\<close>

definition proxy_headers :: "string list" where
  "proxy_headers =
     [''        proxy_set_header Host $host;'',
      ''        proxy_set_header X-Real-IP $remote_addr;'',
      ''        proxy_set_header X-Forwarded-For $proxy_add_x_forwarded_for;'',
      ''        proxy_set_header X-Forwarded-Proto $scheme;'']"

text \<open>The result is \<open>(root_directive, location_root, fallback_location)\<close>.\<close>

definition build_nginx_blocks ::
  "(yaml \<Rightarrow> string) \<Rightarrow> yaml \<Rightarrow> yaml \<Rightarrow> string \<Rightarrow> string \<times> string \<times> string" where
  \<open>build_nginx_blocks repr static_root host port =
     (if truthy static_root then
        (''    root '' @ py_str repr static_root @ '';\<newline>    index index.html;'',
         ''        try_files $uri $uri/ @app;\<newline>'' @
         ''        add_header Cache-Control "no-cache, no-store";'',
         ''    location @app {\<newline>'' @
         ''        proxy_pass http://'' @ py_str repr host @ '':'' @ port @ '';\<newline>'' @
         ''        proxy_set_header Host $host;\<newline>'' @
         ''        proxy_set_header X-Real-IP $remote_addr;\<newline>'' @
         ''        proxy_set_header X-Forwarded-For $proxy_add_x_forwarded_for;\<newline>'' @
         ''        proxy_set_header X-Forwarded-Proto $scheme;\<newline>'' @
         ''    }\<newline>'')
      else
        ('''',
         ''        proxy_pass http://'' @ py_str repr host @ '':'' @ port @ '';\<newline>'' @
         ''        proxy_set_header Host $host;\<newline>'' @
         ''        proxy_set_header X-Real-IP $remote_addr;\<newline>'' @
         ''        proxy_set_header X-Forwarded-For $proxy_add_x_forwarded_for;\<newline>'' @
         ''        proxy_set_header X-Forwarded-Proto $scheme;'',
         ''''))\<close>

section \<open>Custom routes: render_custom_locations\<close>

text \<open>The list \<open>lines\<close> that the loop body builds for one rule.\<close>

definition extra_line :: "string \<Rightarrow> string" where
  "extra_line raw = (let r = py_rstrip raw in if r \<noteq> [] then ''        '' @ r else ''        '')"

definition location_lines :: "location \<Rightarrow> string list" where
  "location_lines loc =
     [''    location '' @ path loc @ '' {''] @
     (if proxy_pass loc \<noteq> []
      then (''        proxy_pass '' @ proxy_pass loc @ '';'') # proxy_headers
      else []) @
     (if extra loc \<noteq> [] then map extra_line (splitlines (extra loc)) else []) @
     [''    }'']"

definition render_custom_locations :: "location list \<Rightarrow> string" where
  "render_custom_locations locations =
     (if locations = [] then ''''
      else join ''\<newline>\<newline>'' (map (\<lambda>loc. join ''\<newline>'' (location_lines loc)) locations)
           @ ''\<newline>\<newline>'')"

section \<open>The server block composer: build_server_blocks\<close>

definition health_stub :: "string \<Rightarrow> string" where
  \<open>health_stub health =
     ''    # Health endpoint\<newline>'' @
     ''    location '' @ health @ '' {\<newline>'' @
     ''        access_log off;\<newline>'' @
     ''        return 200 "healthy'' @ [CHR 0x5C] @ ''n";\<newline>'' @
     ''        add_header Content-Type text/plain;\<newline>'' @
     ''    }\<newline>'' @
     ''}\<newline>''\<close>

definition acme_head :: "string \<Rightarrow> string" where
  "acme_head domain =
     ''server {\<newline>'' @
     ''    listen 80;\<newline>'' @
     ''    server_name '' @ domain @ '';\<newline>\<newline>'' @
     ''    # ACME challenge\<newline>'' @
     ''    location /.well-known/acme-challenge/ {\<newline>'' @
     ''        root /var/www/certbot;\<newline>'' @
     ''    }\<newline>\<newline>''"

text \<open>The first alternative of the inner function \<open>server_body\<close>.\<close>

definition full_body :: "string \<Rightarrow> string \<Rightarrow> string \<Rightarrow> string \<Rightarrow> string \<Rightarrow> string" where
  "full_body domain health location_root fallback_location extra_locations =
     acme_head domain @
     ''    # Main location\<newline>'' @
     ''    location / {\<newline>'' @
     location_root @ ''\<newline>'' @
     ''    }\<newline>\<newline>'' @
     fallback_location @
     extra_locations @
     health_stub health"

text \<open>The second alternative of \<open>server_body\<close>.\<close>

definition redirect_body :: "string \<Rightarrow> string" where
  "redirect_body domain =
     acme_head domain @
     ''    # Redirect HTTP to HTTPS\<newline>'' @
     ''    return 301 https://$host$request_uri;\<newline>'' @
     ''}\<newline>''"

text \<open>The inner function \<open>server_body(include_tls)\<close>, with the variables it closes over.\<close>

definition server_body ::
  "bool \<Rightarrow> string \<Rightarrow> string \<Rightarrow> string \<Rightarrow> string \<Rightarrow> string \<Rightarrow> bool \<Rightarrow> string" where
  "server_body allow_plain_http domain health location_root fallback_location extra_locations
     include_tls =
     (if allow_plain_http \<or> \<not> include_tls
      then full_body domain health location_root fallback_location extra_locations
      else redirect_body domain)"

definition https_body ::
  "string \<Rightarrow> string \<Rightarrow> string \<Rightarrow> string \<Rightarrow> string \<Rightarrow> string \<Rightarrow> string" where
  \<open>https_body domain health root_directive location_root fallback_location extra_locations =
     ''server {\<newline>'' @
     ''    listen 443 ssl;\<newline>'' @
     ''    listen [::]:443 ssl;\<newline>'' @
     ''    server_name '' @ domain @ '';\<newline>\<newline>'' @
     ''    # Certbot paths; adjust if you store certs elsewhere.\<newline>'' @
     ''    ssl_certificate /etc/letsencrypt/live/'' @ domain @ ''/fullchain.pem;\<newline>'' @
     ''    ssl_certificate_key /etc/letsencrypt/live/'' @ domain @ ''/privkey.pem;\<newline>'' @
     ''    include /etc/letsencrypt/options-ssl-nginx.conf;\<newline>\<newline>'' @
     ''    client_max_body_size 20m;\<newline>'' @
     ''    add_header X-Frame-Options "SAMEORIGIN" always;\<newline>'' @
     ''    add_header X-XSS-Protection "1; mode=block" always;\<newline>'' @
     ''    add_header X-Content-Type-Options "nosniff" always;\<newline>'' @
     ''    add_header Referrer-Policy "no-referrer-when-downgrade" always;\<newline>'' @
     ''    add_header Strict-Transport-Security "max-age=31536000; includeSubDomains; preload" always;\<newline>\<newline>'' @
     root_directive @ ''\<newline>'' @
     ''    # Main location: either proxies or falls back from static to proxy.\<newline>'' @
     ''    location / {\<newline>'' @
     location_root @ ''\<newline>'' @
     ''    }\<newline>\<newline>'' @
     fallback_location @
     extra_locations @
     health_stub health\<close>

text \<open>The result is \<open>(http_block, https_block)\<close>.\<close>

definition build_server_blocks ::
  "(yaml \<Rightarrow> string) \<Rightarrow> service \<Rightarrow> string \<Rightarrow> string \<Rightarrow> string \<Rightarrow> string \<Rightarrow> string \<times> string" where
  "build_server_blocks repr service root_directive location_root fallback_location extra_locations =
     (let domain = py_str repr (DOMAIN service);
          health = py_str repr (HEALTH_PATH service);
          allow_plain_http = ALLOW_PLAIN_HTTP service;
          http_block = server_body allow_plain_http domain health location_root fallback_location
                         extra_locations False;
          https_block = (if \<not> allow_plain_http
                         then https_body domain health root_directive location_root
                                fallback_location extra_locations
                         else '''')
      in (http_block, https_block))"

section \<open>The template renderer: render_template and render_service\<close>

text \<open>
  The files of the host: the text stored under each path. A path is the text of the
  \<open>Path\<close> object; \<open>a / b\<close> is \<open>b\<close> when \<open>b\<close> is absolute.
\<close>

type_synonym files = "string \<rightharpoonup> string"

definition path_join :: "string \<Rightarrow> string \<Rightarrow> string" where
  "path_join a b = (if prefix ''/'' b then b else a @ ''/'' @ b)"

text \<open>
  The loop over \<open>replacements.items()\<close>, in the dict's insertion order.
  \<open>str.replace\<close> raises \<open>TypeError\<close> when the replacement is not a string.
\<close>

fun substitute :: "(string \<times> yaml) list \<Rightarrow> string \<Rightarrow> error + string" where
  "substitute [] content = Inr content"
| "substitute ((key, val) # rest) content =
     (case val of
        YStr v \<Rightarrow> substitute rest (py_replace (''__'' @ key @ ''__'') v content)
      | _ \<Rightarrow> Inl TypeError)"

definition render_template ::
  "string \<Rightarrow> string \<Rightarrow> (string \<times> yaml) list \<Rightarrow> files \<Rightarrow> files \<times> (error + unit)" where
  "render_template template_path dest_path replacements fs =
     (case fs template_path of
        None \<Rightarrow> (fs, Inl (FileNotFoundError template_path))
      | Some content \<Rightarrow>
          (case substitute replacements content of
             Inl e \<Rightarrow> (fs, Inl e)
           | Inr text \<Rightarrow> (fs(dest_path \<mapsto> text), Inr ())))"

definition TEMPLATE_DIR :: "string \<Rightarrow> string" where
  "TEMPLATE_DIR root = path_join root ''templates''"

definition OUT_DIR :: "string \<Rightarrow> string" where
  "OUT_DIR root = path_join root ''generated''"

definition NGINX_OUT :: "string \<Rightarrow> string" where
  "NGINX_OUT root = path_join (OUT_DIR root) ''nginx''"

definition SYSTEMD_OUT :: "string \<Rightarrow> string" where
  "SYSTEMD_OUT root = path_join (OUT_DIR root) ''systemd''"

definition SERVICES_DIR :: "string \<Rightarrow> string" where
  "SERVICES_DIR root = path_join root ''services''"

text \<open>The two blocks that \<open>render_service\<close> puts into the nginx template.\<close>

definition service_blocks :: "(yaml \<Rightarrow> string) \<Rightarrow> service \<Rightarrow> string \<times> string" where
  "service_blocks repr service =
     (let (root_directive, location_root, fallback_location) =
            build_nginx_blocks repr (STATIC_ROOT service) (UPSTREAM_HOST service) (UPSTREAM_PORT service);
          extra_locations = render_custom_locations (LOCATIONS service)
      in build_server_blocks repr service root_directive location_root fallback_location
           extra_locations)"

definition nginx_replacements :: "(yaml \<Rightarrow> string) \<Rightarrow> service \<Rightarrow> (string \<times> yaml) list" where
  "nginx_replacements repr service =
     (let (http_block, https_block) = service_blocks repr service
      in [(''HTTP_BLOCK'', YStr http_block), (''HTTPS_BLOCK'', YStr https_block)])"

definition systemd_replacements :: "service \<Rightarrow> (string \<times> yaml) list" where
  "systemd_replacements service =
     [(''NAME'', NAME service),
      (''WORKING_DIR'', WORKING_DIR service),
      (''USER'', USER service),
      (''START_CMD'', START_CMD service),
      (''STOP_CMD'', STOP_CMD service),
      (''TYPE'', YStr (SVC_TYPE service)),
      (''REMAIN_AFTER_EXIT'', YStr (REMAIN_AFTER_EXIT service)),
      (''RESTART'', YStr (RESTART service))]"

definition nginx_dest :: "(yaml \<Rightarrow> string) \<Rightarrow> string \<Rightarrow> service \<Rightarrow> string" where
  "nginx_dest repr root service = path_join (NGINX_OUT root) (py_str repr (NAME service) @ ''.conf'')"

definition systemd_dest :: "(yaml \<Rightarrow> string) \<Rightarrow> string \<Rightarrow> service \<Rightarrow> string" where
  "systemd_dest repr root service =
     path_join (SYSTEMD_OUT root) (py_str repr (NAME service) @ ''.service'')"

text \<open>
  \<open>render_service\<close>: the files after the call, and the exception if one was raised. The
  first template is written before the second is rendered.
\<close>

definition render_service ::
  "(yaml \<Rightarrow> string) \<Rightarrow> string \<Rightarrow> service \<Rightarrow> files \<Rightarrow> files \<times> (error + unit)" where
  "render_service repr root service fs =
     (case render_template (path_join (TEMPLATE_DIR root) ''nginx.conf.tmpl'')
             (nginx_dest repr root service) (nginx_replacements repr service) fs of
        (fs1, Inl e) \<Rightarrow> (fs1, Inl e)
      | (fs1, Inr u) \<Rightarrow>
          render_template (path_join (TEMPLATE_DIR root) ''systemd.service.tmpl'')
            (systemd_dest repr root service) (systemd_replacements service) fs1)"

section \<open>Discovery and the command line: load_services and main\<close>

text \<open>
  The descriptor store as the script sees it: the sorted result of
  \<open>SERVICES_DIR.glob("*.yml")\<close>, the test \<open>path.exists()\<close>, and what reading and parsing
  a descriptor file gives.
\<close>

record store =
  glob_yml :: "string list"
  path_exists :: "string \<Rightarrow> bool"
  read_yaml :: "string \<Rightarrow> load_result"

text \<open>The first loop of \<open>load_services\<close>: \<open>uniq\<close>, given the set \<open>seen\<close>.\<close>

fun uniq_names :: "string set \<Rightarrow> string list \<Rightarrow> string list" where
  "uniq_names seen [] = []"
| "uniq_names seen (name # rest) =
     (if name = [] then uniq_names seen rest
      else if name \<in> seen then uniq_names seen rest
      else name # uniq_names (insert name seen) rest)"

text \<open>The second loop: \<open>(missing, services)\<close>.\<close>

fun resolve_names :: "string \<Rightarrow> (string \<Rightarrow> bool) \<Rightarrow> string list \<Rightarrow> string list \<times> string list" where
  "resolve_names dir ex [] = ([], [])"
| "resolve_names dir ex (name # rest) =
     (let (missing, services) = resolve_names dir ex rest;
          p = path_join dir (name @ ''.yml'')
      in if \<not> ex p then (name # missing, services) else (missing, p # services))"

text \<open>
  \<open>load_services(selected)\<close>: the lines printed to stdout, and the exception raised or the
  list of descriptor paths. \<open>None\<close> and the empty list both count as no selection.
\<close>

definition load_all :: "string \<Rightarrow> store \<Rightarrow> string list \<times> (error + string list)" where
  "load_all root st =
     (if glob_yml st = []
      then ([''No service files found in '' @ SERVICES_DIR root], Inr [])
      else ([], Inr (glob_yml st)))"

definition load_selected :: "string \<Rightarrow> store \<Rightarrow> string list \<Rightarrow> string list \<times> (error + string list)" where
  "load_selected root st selected =
     (let uniq = uniq_names {} selected;
          (missing, services) = resolve_names (SERVICES_DIR root) (path_exists st) uniq
      in if missing \<noteq> []
         then ([], Inl (SystemExit (''Service file(s) not found in '' @ SERVICES_DIR root @ '': ''
                                     @ join '', '' missing)))
         else ([], Inr services))"

definition load_services ::
  "string \<Rightarrow> store \<Rightarrow> string list option \<Rightarrow> string list \<times> (error + string list)" where
  "load_services root st selected =
     (case selected of
        None \<Rightarrow> load_all root st
      | Some names \<Rightarrow> if names = [] then load_all root st else load_selected root st names)"

text \<open>
  The state of a run of \<open>main\<close>: the lines on stdout and stderr, the files, and the list
  \<open>rendered\<close>.
\<close>

record run =
  out :: "string list"
  err :: "string list"
  files_of :: files
  rendered :: "yaml list"

text \<open>
  The loop of \<open>main\<close> over the descriptor paths. An exception ends the loop; the state
  reached so far is kept.
\<close>

fun main_loop ::
  "(yaml \<Rightarrow> string) \<Rightarrow> string \<Rightarrow> store \<Rightarrow> bool \<Rightarrow> string list \<Rightarrow> run \<Rightarrow> run \<times> error option" where
  "main_loop repr root st strict [] r = (r, None)"
| "main_loop repr root st strict (svc_file # rest) r =
     (case parse_service repr strict svc_file (read_yaml st svc_file) of
        (printed, Inl e) \<Rightarrow> (r\<lparr>err := err r @ printed\<rparr>, Some e)
      | (printed, Inr None) \<Rightarrow> main_loop repr root st strict rest (r\<lparr>err := err r @ printed\<rparr>)
      | (printed, Inr (Some parsed)) \<Rightarrow>
          (case render_service repr root parsed (files_of r) of
             (fs, Inl e) \<Rightarrow> (r\<lparr>err := err r @ printed, files_of := fs\<rparr>, Some e)
           | (fs, Inr u) \<Rightarrow>
               main_loop repr root st strict rest
                 (r\<lparr>err := err r @ printed,
                    files_of := fs,
                    rendered := rendered r @ [NAME parsed],
                    out := out r @
                      [''Rendered: '' @ NGINX_OUT root @ ''/'' @ py_str repr (NAME parsed) @ ''.conf and ''
                       @ SYSTEMD_OUT root @ ''/'' @ py_str repr (NAME parsed) @ ''.service'']\<rparr>)))"

definition next_steps :: "string list" where
  "next_steps =
     [''\<newline>Next steps (manual on host):'',
      ''1) Copy nginx confs to /etc/nginx/sites-enabled/ and reload: nginx -t && systemctl reload nginx'',
      ''2) Copy systemd units to /etc/systemd/system/ and reload: systemctl daemon-reload'',
      ''3) Enable services: systemctl enable --now <service>'']"

text \<open>
  \<open>main()\<close>, given the value of \<open>args.service\<close>: the final state, and the exception raised
  or the value returned, which \<open>sys.exit\<close> takes as the exit status.
\<close>

definition main ::
  "(yaml \<Rightarrow> string) \<Rightarrow> string \<Rightarrow> store \<Rightarrow> string list option \<Rightarrow> files \<Rightarrow> run \<times> (error + int)" where
  "main repr root st args_service fs =
     (let strict = (args_service \<noteq> None \<and> args_service \<noteq> Some []);
          r0 = \<lparr>out = [], err = [], files_of = fs, rendered = []\<rparr>
      in case load_services root st args_service of
           (printed, Inl e) \<Rightarrow> (r0\<lparr>out := printed\<rparr>, Inl e)
         | (printed, Inr svc_files) \<Rightarrow>
             (case main_loop repr root st strict svc_files (r0\<lparr>out := printed\<rparr>) of
                (r, Some e) \<Rightarrow> (r, Inl e)
              | (r, None) \<Rightarrow>
                  if rendered r = [] then
                    (if strict then (r, Inl (SystemExit ''No services rendered.''))
                     else (r, Inr 0))
                  else (r\<lparr>out := out r @ next_steps\<rparr>, Inr 0)))"

section \<open>Facts about the string primitives\<close>

lemma py_in_iff: "py_in sub s \<longleftrightarrow> (\<exists>a b. s = a @ sub @ b)"
proof (induction s)
  case Nil
  then show ?case by simp
next
  case (Cons c cs)
  show ?case
  proof
    assume "py_in sub (c # cs)"
    then consider "prefix sub (c # cs)" | "py_in sub cs" by auto
    then show "\<exists>a b. c # cs = a @ sub @ b"
    proof cases
      case 1
      then obtain b where "c # cs = sub @ b" by (auto simp: prefix_def)
      then have "c # cs = [] @ sub @ b" by simp
      then show ?thesis by blast
    next
      case 2
      with Cons.IH obtain a b where "cs = a @ sub @ b" by blast
      then have "c # cs = (c # a) @ sub @ b" by simp
      then show ?thesis by blast
    qed
  next
    assume "\<exists>a b. c # cs = a @ sub @ b"
    then obtain a b where ab: "c # cs = a @ sub @ b" by blast
    show "py_in sub (c # cs)"
    proof (cases a)
      case Nil
      with ab have "prefix sub (c # cs)" by (simp add: prefix_def)
      then show ?thesis by simp
    next
      case (Cons x xs)
      with ab have "cs = xs @ sub @ b" by simp
      with Cons.IH have "py_in sub cs" by blast
      then show ?thesis by simp
    qed
  qed
qed

lemma py_in_middle: "py_in sub (a @ sub @ b)"
  using py_in_iff by blast

section \<open>The static/proxy bifurcation\<close>

text \<open>
  Claim C2. \<open>build_nginx_blocks\<close> branches on the truth value of \<open>static_root\<close>. When it is
  set, the main-route body contains the filesystem-fallback pattern (the \<open>try_files\<close>
  directive that falls through to \<open>@app\<close>, and the header that suppresses caching), and the
  named fallback route is non-empty and proxies to the upstream. When it is unset, the
  main-route body is the direct proxy to \<open>http://<host>:<port>\<close> followed by the four proxy
  headers, and the fallback fragment is the empty string.
\<close>

theorem build_nginx_blocks_bifurcates:
  \<open>build_nginx_blocks repr static_root host port = (root_directive, location_root, fallback_location)
   \<Longrightarrow>
   (if truthy static_root
    then py_in ''try_files $uri $uri/ @app;'' location_root
       \<and> py_in ''add_header Cache-Control "no-cache, no-store";'' location_root
       \<and> fallback_location \<noteq> ''''
       \<and> py_in (''proxy_pass http://'' @ py_str repr host @ '':'' @ port @ '';'') fallback_location
    else location_root =
           ''        proxy_pass http://'' @ py_str repr host @ '':'' @ port @ '';\<newline>''
           @ join ''\<newline>'' proxy_headers
       \<and> fallback_location = '''')\<close>
proof (cases "truthy static_root")
  case True
  assume b: "build_nginx_blocks repr static_root host port = (root_directive, location_root, fallback_location)"
  from b True have lr: \<open>location_root = ''        '' @ ''try_files $uri $uri/ @app;'' @ (''\<newline>        '' @ ''add_header Cache-Control "no-cache, no-store";'')\<close>
    by (simp add: build_nginx_blocks_def)
  from b True have lr2: \<open>location_root = ''        try_files $uri $uri/ @app;\<newline>        '' @ ''add_header Cache-Control "no-cache, no-store";'' @ ''''\<close>
    by (simp add: build_nginx_blocks_def)
  from b True have fb: "fallback_location = ''    location @app {\<newline>        '' @
      (''proxy_pass http://'' @ py_str repr host @ '':'' @ port @ '';'') @
      (''\<newline>'' @ join ''\<newline>'' proxy_headers @ ''\<newline>    }\<newline>'')"
    by (simp add: build_nginx_blocks_def proxy_headers_def)
  have 1: "py_in ''try_files $uri $uri/ @app;'' location_root"
    by (subst lr) (rule py_in_middle)
  have 2: \<open>py_in ''add_header Cache-Control "no-cache, no-store";'' location_root\<close>
    by (subst lr2) (rule py_in_middle)
  have 3: "py_in (''proxy_pass http://'' @ py_str repr host @ '':'' @ port @ '';'') fallback_location"
    by (subst fb) (rule py_in_middle)
  have 4: "fallback_location \<noteq> ''''" by (subst fb) simp
  from True 1 2 3 4 show ?thesis by simp
next
  case False
  assume b: "build_nginx_blocks repr static_root host port = (root_directive, location_root, fallback_location)"
  with False show ?thesis
    by (simp add: build_nginx_blocks_def proxy_headers_def)
qed

theorem build_nginx_blocks_bifurcates_witness:
  \<open>py_in ''try_files $uri $uri/ @app;''
      (fst (snd (build_nginx_blocks (\<lambda>v. '''') (YStr ''/srv/www'') (YStr ''127.0.0.1'') ''8080'')))
   \<and> snd (snd (build_nginx_blocks (\<lambda>v. '''') (YStr ''/srv/www'') (YStr ''127.0.0.1'') ''8080'')) \<noteq> ''''
   \<and> fst (snd (build_nginx_blocks (\<lambda>v. '''') (YStr '''') (YStr ''127.0.0.1'') ''8080'')) =
       ''        proxy_pass http://127.0.0.1:8080;\<newline>'' @ join ''\<newline>'' proxy_headers
   \<and> snd (snd (build_nginx_blocks (\<lambda>v. '''') (YStr '''') (YStr ''127.0.0.1'') ''8080'')) = ''''\<close>
  using build_nginx_blocks_bifurcates [of "\<lambda>v. ''''" "YStr ''/srv/www''" "YStr ''127.0.0.1''" "''8080''"
          "fst (build_nginx_blocks (\<lambda>v. '''') (YStr ''/srv/www'') (YStr ''127.0.0.1'') ''8080'')"
          "fst (snd (build_nginx_blocks (\<lambda>v. '''') (YStr ''/srv/www'') (YStr ''127.0.0.1'') ''8080''))"
          "snd (snd (build_nginx_blocks (\<lambda>v. '''') (YStr ''/srv/www'') (YStr ''127.0.0.1'') ''8080''))"]
        build_nginx_blocks_bifurcates [of "\<lambda>v. ''''" "YStr ''''" "YStr ''127.0.0.1''" "''8080''"
          "fst (build_nginx_blocks (\<lambda>v. '''') (YStr '''') (YStr ''127.0.0.1'') ''8080'')"
          "fst (snd (build_nginx_blocks (\<lambda>v. '''') (YStr '''') (YStr ''127.0.0.1'') ''8080''))"
          "snd (snd (build_nginx_blocks (\<lambda>v. '''') (YStr '''') (YStr ''127.0.0.1'') ''8080''))"]
  by simp

section \<open>Unit type and restart policy\<close>

lemmas parse_eval =
  parse_service_def parse_mapping_def py_or_def get_field_def dict_get_def parse_locations_def
  normalize_entry_def start_cmd_lower_def py_lower_def lower_char_def is_compose_def
  quoted_empty_def missing_fields_def required_fields_def str_int_def nat_digits.simps
  digit_char_def skip_def Let_def path_name_def truthy_words_def py_strip_def py_rstrip_def
  is_space_def endswith_def



section \<open>Normalized location rules\<close>

text \<open>
  The loop handles every entry on its own: the rules and the warnings of a list are those
  of its parts, and the position of an entry only shows in the index of its warning.
\<close>

lemma parse_locations_loop_append:
  "parse_locations_loop repr d i (xs @ ys) =
     (fst (parse_locations_loop repr d i xs) @ fst (parse_locations_loop repr d (i + length xs) ys),
      snd (parse_locations_loop repr d i xs) @ snd (parse_locations_loop repr d (i + length xs) ys))"
  by (induction xs arbitrary: i) (auto split: prod.splits yaml.splits)

lemma parse_locations_loop_fst_index:
  "fst (parse_locations_loop repr d i xs) = fst (parse_locations_loop repr d j xs)"
proof (induction xs arbitrary: i j)
  case Nil
  show ?case by simp
next
  case (Cons x xs)
  from Cons.IH [of "i + 1" "j + 1"] show ?case
    by (auto split: prod.splits yaml.splits)
qed

lemma parse_locations_loop_kept:
  assumes "truthy (dict_get m ''path'')"
  shows "fst (parse_locations_loop repr d i (pre @ YMap m # post)) =
         fst (parse_locations_loop repr d i pre) @ normalize_entry repr d m
         # fst (parse_locations_loop repr d i post)"
proof -
  have "fst (parse_locations_loop repr d (i + length pre) (YMap m # post)) =
        normalize_entry repr d m # fst (parse_locations_loop repr d (i + length pre + 1) post)"
    using assms by (cases "parse_locations_loop repr d (i + length pre + 1) post") simp
  also have "fst (parse_locations_loop repr d (i + length pre + 1) post) =
             fst (parse_locations_loop repr d i post)"
    by (rule parse_locations_loop_fst_index)
  finally show ?thesis
    by (simp add: parse_locations_loop_append)
qed

lemma parse_locations_loop_dropped:
  assumes "\<not> truthy (dict_get m ''path'')"
  shows "parse_locations_loop repr d i (pre @ YMap m # post) =
         (fst (parse_locations_loop repr d i pre) @ fst (parse_locations_loop repr d i post),
          snd (parse_locations_loop repr d i pre)
          @ (''Ignoring locations['' @ nat_digits (i + length pre) @ ''] (missing path)'')
          # snd (parse_locations_loop repr d (i + length pre + 1) post))"
proof -
  have "parse_locations_loop repr d (i + length pre) (YMap m # post) =
        (fst (parse_locations_loop repr d (i + length pre + 1) post),
         (''Ignoring locations['' @ nat_digits (i + length pre) @ ''] (missing path)'')
         # snd (parse_locations_loop repr d (i + length pre + 1) post))"
    using assms by (cases "parse_locations_loop repr d (i + length pre + 1) post") simp
  moreover have "fst (parse_locations_loop repr d (i + length pre + 1) post) =
             fst (parse_locations_loop repr d i post)"
    by (rule parse_locations_loop_fst_index)
  ultimately show ?thesis
    by (simp add: parse_locations_loop_append)
qed

lemma parse_locations_list:
  "parse_locations repr (YList entries) host port =
     parse_locations_loop repr (''http://'' @ py_str repr host @ '':'' @ py_str repr port) 1 entries"
  by (cases entries) (simp_all add: parse_locations_def)




section \<open>Disabled proxying and entries without a path\<close>

text \<open>
  The value under \<open>locations\<close> has no part in the decision of \<open>parse_service\<close> to raise,
  to skip or to return a descriptor: it only fills the field \<open>LOCATIONS\<close>.
\<close>

lemma parse_service_locations_frame:
  "map_sum id (map_option (\<lambda>s. s\<lparr>LOCATIONS := []\<rparr>))
     (snd (parse_service repr strict p (Loaded (YMap ((''locations'', v) # data))))) =
   map_sum id (map_option (\<lambda>s. s\<lparr>LOCATIONS := []\<rparr>))
     (snd (parse_service repr strict p (Loaded (YMap ((''locations'', v') # data)))))"
proof -
  have g: "\<And>k dflt w. k \<noteq> ''locations'' \<Longrightarrow>
        get_field ((''locations'', w) # data) k dflt = get_field data k dflt"
    by (simp add: get_field_def)
  have m: "\<And>w. missing_fields ((''locations'', w) # data) = missing_fields data"
    by (simp add: missing_fields_def required_fields_def g)
  have "\<And>w. map_sum id (map_option (\<lambda>s. s\<lparr>LOCATIONS := []\<rparr>))
          (snd (parse_mapping repr strict p ((''locations'', w) # data))) =
        map_sum id (map_option (\<lambda>s. s\<lparr>LOCATIONS := []\<rparr>))
          (snd (parse_mapping repr strict p data))"
    by (simp add: parse_mapping_def Let_def g m skip_def split: prod.splits sum.splits)
  then show ?thesis
    by (simp add: parse_service_def py_or_def)
qed

text \<open>
  Claim C7. A mapping entry with a non-empty path whose \<open>proxy_pass\<close> is the boolean
  \<open>false\<close> gives a rule with the empty proxy target, and the block rendered for that rule
  is the opening line, one indented line for each line of its \<open>extra\<close> text, and the closing
  line: the renderer emits none of its five proxy directives. A mapping entry whose path is
  absent or empty is left out of the normalized list, a warning with its index is printed, and
  the other entries are kept. Nothing about the entries can abort the run: in strict mode as
  in lenient mode \<open>parse_service\<close> raises, skips or returns the same descriptor (up to its
  \<open>LOCATIONS\<close>) whatever the value under \<open>locations\<close> is.
\<close>

theorem disabled_proxy_and_pathless_entries:
  "(truthy (dict_get m ''path'') \<and> dict_get m ''proxy_pass'' = YBool False \<longrightarrow>
      (\<exists>rule.
         fst (parse_locations repr (YList (pre @ YMap m # post)) host port) =
           fst (parse_locations repr (YList pre) host port) @ rule
           # fst (parse_locations repr (YList post) host port)
       \<and> proxy_pass rule = ''''
       \<and> extra rule = py_rstrip (py_str repr (py_or (dict_get m ''extra'') (YStr '''')))
       \<and> location_lines rule =
           (''    location '' @ path rule @ '' {'')
           # map extra_line (splitlines (extra rule)) @ [''    }'']
       \<and> render_custom_locations [rule] =
           join ''\<newline>'' ((''    location '' @ path rule @ '' {'')
                              # map extra_line (splitlines (extra rule)) @ [''    }''])
           @ ''\<newline>\<newline>''))
   \<and> (\<not> truthy (dict_get m ''path'') \<longrightarrow>
        fst (parse_locations repr (YList (pre @ YMap m # post)) host port) =
          fst (parse_locations repr (YList pre) host port)
          @ fst (parse_locations repr (YList post) host port)
      \<and> (''Ignoring locations['' @ nat_digits (length pre + 1) @ ''] (missing path)'')
          \<in> set (snd (parse_locations repr (YList (pre @ YMap m # post)) host port)))
   \<and> map_sum id (map_option (\<lambda>s. s\<lparr>LOCATIONS := []\<rparr>))
        (snd (parse_service repr strict p (Loaded (YMap ((''locations'', v) # data))))) =
      map_sum id (map_option (\<lambda>s. s\<lparr>LOCATIONS := []\<rparr>))
        (snd (parse_service repr strict p (Loaded (YMap ((''locations'', v') # data)))))"
proof (intro conjI impI)
  assume a: "truthy (dict_get m ''path'') \<and> dict_get m ''proxy_pass'' = YBool False"
  define d where "d = ''http://'' @ py_str repr host @ '':'' @ py_str repr port"
  define rule where "rule = normalize_entry repr d m"
  have pp: "proxy_pass rule = ''''"
    using a by (simp add: rule_def normalize_entry_def Let_def)
  have ex: "extra rule = py_rstrip (py_str repr (py_or (dict_get m ''extra'') (YStr '''')))"
    by (simp add: rule_def normalize_entry_def Let_def)
  have sl: "splitlines '''' = []" by (simp add: splitlines_def)
  have ll: "location_lines rule =
           (''    location '' @ path rule @ '' {'')
           # map extra_line (splitlines (extra rule)) @ [''    }'']"
    using pp sl by (simp add: location_lines_def)
  have rc: "render_custom_locations [rule] =
           join ''\<newline>'' ((''    location '' @ path rule @ '' {'')
                              # map extra_line (splitlines (extra rule)) @ [''    }''])
           @ ''\<newline>\<newline>''"
    by (simp add: render_custom_locations_def ll)
  have "fst (parse_locations repr (YList (pre @ YMap m # post)) host port) =
       fst (parse_locations repr (YList pre) host port) @ rule
       # fst (parse_locations repr (YList post) host port)"
    unfolding parse_locations_list rule_def d_def
    using a by (intro parse_locations_loop_kept) simp
  with pp ex ll rc show "\<exists>rule.
         fst (parse_locations repr (YList (pre @ YMap m # post)) host port) =
           fst (parse_locations repr (YList pre) host port) @ rule
           # fst (parse_locations repr (YList post) host port)
       \<and> proxy_pass rule = ''''
       \<and> extra rule = py_rstrip (py_str repr (py_or (dict_get m ''extra'') (YStr '''')))
       \<and> location_lines rule =
           (''    location '' @ path rule @ '' {'')
           # map extra_line (splitlines (extra rule)) @ [''    }'']
       \<and> render_custom_locations [rule] =
           join ''\<newline>'' ((''    location '' @ path rule @ '' {'')
                              # map extra_line (splitlines (extra rule)) @ [''    }''])
           @ ''\<newline>\<newline>''"
    by blast
next
  assume a: "\<not> truthy (dict_get m ''path'')"
  show "fst (parse_locations repr (YList (pre @ YMap m # post)) host port) =
          fst (parse_locations repr (YList pre) host port)
          @ fst (parse_locations repr (YList post) host port)"
    unfolding parse_locations_list
    by (simp add: parse_locations_loop_dropped [OF a])
  show "(''Ignoring locations['' @ nat_digits (length pre + 1) @ ''] (missing path)'')
          \<in> set (snd (parse_locations repr (YList (pre @ YMap m # post)) host port))"
    unfolding parse_locations_list
    by (simp add: parse_locations_loop_dropped [OF a] add.commute)
next
  show "map_sum id (map_option (\<lambda>s. s\<lparr>LOCATIONS := []\<rparr>))
        (snd (parse_service repr strict p (Loaded (YMap ((''locations'', v) # data))))) =
      map_sum id (map_option (\<lambda>s. s\<lparr>LOCATIONS := []\<rparr>))
        (snd (parse_service repr strict p (Loaded (YMap ((''locations'', v') # data)))))"
    by (rule parse_service_locations_frame)
qed

theorem disabled_proxy_and_pathless_entries_witness:
  "truthy (dict_get [(''path'', YStr ''/ws''), (''proxy_pass'', YBool False), (''extra'', YStr ''return 204;'')] ''path'')
   \<and> dict_get [(''path'', YStr ''/ws''), (''proxy_pass'', YBool False), (''extra'', YStr ''return 204;'')] ''proxy_pass'' = YBool False
   \<and> \<not> truthy (dict_get [(''extra'', YStr ''deny all;'')] ''path'')
   \<and> parse_locations (\<lambda>v. '''')
        (YList [YMap [(''path'', YStr ''/ws''), (''proxy_pass'', YBool False), (''extra'', YStr ''return 204;'')],
                YMap [(''extra'', YStr ''deny all;'')]])
        (YStr ''127.0.0.1'') (YInt 8080) =
       ([\<lparr>path = ''/ws'', proxy_pass = '''', extra = ''return 204;''\<rparr>],
        [''Ignoring locations[2] (missing path)''])
   \<and> render_custom_locations [\<lparr>path = ''/ws'', proxy_pass = '''', extra = ''return 204;''\<rparr>] =
       ''    location /ws {\<newline>        return 204;\<newline>    }\<newline>\<newline>''
   \<and> (\<exists>rule.
         fst (parse_locations (\<lambda>v. '''')
               (YList ([] @ YMap [(''path'', YStr ''/ws''), (''proxy_pass'', YBool False), (''extra'', YStr ''return 204;'')]
                       # [YMap [(''extra'', YStr ''deny all;'')]]))
               (YStr ''127.0.0.1'') (YInt 8080)) =
           fst (parse_locations (\<lambda>v. '''') (YList []) (YStr ''127.0.0.1'') (YInt 8080)) @ rule
           # fst (parse_locations (\<lambda>v. '''') (YList [YMap [(''extra'', YStr ''deny all;'')]])
                   (YStr ''127.0.0.1'') (YInt 8080))
       \<and> proxy_pass rule = '''')
   \<and> ''Ignoring locations['' @ nat_digits (length [YMap [(''path'', YStr ''/ws'')]] + 1) @ ''] (missing path)''
        \<in> set (snd (parse_locations (\<lambda>v. '''')
               (YList ([YMap [(''path'', YStr ''/ws'')]] @ YMap [(''extra'', YStr ''deny all;'')] # []))
               (YStr ''127.0.0.1'') (YInt 8080)))"
proof -
  let ?m1 = "[(''path'', YStr ''/ws''), (''proxy_pass'', YBool False), (''extra'', YStr ''return 204;'')]"
  let ?m2 = "[(''extra'', YStr ''deny all;'')]"
  have p1: "truthy (dict_get ?m1 ''path'') \<and> dict_get ?m1 ''proxy_pass'' = YBool False"
    by (simp add: dict_get_def)
  have p2: "\<not> truthy (dict_get ?m2 ''path'')"
    by (simp add: dict_get_def)
  have e1: "parse_locations (\<lambda>v. '''') (YList [YMap ?m1, YMap ?m2]) (YStr ''127.0.0.1'') (YInt 8080) =
       ([\<lparr>path = ''/ws'', proxy_pass = '''', extra = ''return 204;''\<rparr>],
        [''Ignoring locations[2] (missing path)''])"
    by (simp add: parse_eval)
  have e2: "render_custom_locations [\<lparr>path = ''/ws'', proxy_pass = '''', extra = ''return 204;''\<rparr>] =
       ''    location /ws {\<newline>        return 204;\<newline>    }\<newline>\<newline>''"
    by (simp add: render_custom_locations_def location_lines_def splitlines_def is_linebreak_def
        extra_line_def py_rstrip_def is_space_def)
  note t1 = disabled_proxy_and_pathless_entries
    [where m = ?m1 and repr = "\<lambda>v. ''''" and pre = "[]" and post = "[YMap ?m2]"
       and host = "YStr ''127.0.0.1''" and port = "YInt 8080" and strict = True and p = "''a.yml''"
       and v = YNull and v' = YNull and data = "[]"]
  note t2 = disabled_proxy_and_pathless_entries
    [where m = ?m2 and repr = "\<lambda>v. ''''" and pre = "[YMap [(''path'', YStr ''/ws'')]]" and post = "[]"
       and host = "YStr ''127.0.0.1''" and port = "YInt 8080" and strict = True and p = "''a.yml''"
       and v = YNull and v' = YNull and data = "[]"]
  from t1 p1 have c1: "\<exists>rule.
         fst (parse_locations (\<lambda>v. '''') (YList ([] @ YMap ?m1 # [YMap ?m2]))
               (YStr ''127.0.0.1'') (YInt 8080)) =
           fst (parse_locations (\<lambda>v. '''') (YList []) (YStr ''127.0.0.1'') (YInt 8080)) @ rule
           # fst (parse_locations (\<lambda>v. '''') (YList [YMap ?m2]) (YStr ''127.0.0.1'') (YInt 8080))
       \<and> proxy_pass rule = ''''"
    by blast
  from t2 p2 have c2: "''Ignoring locations['' @ nat_digits (length [YMap [(''path'', YStr ''/ws'')]] + 1) @ ''] (missing path)''
        \<in> set (snd (parse_locations (\<lambda>v. '''')
               (YList ([YMap [(''path'', YStr ''/ws'')]] @ YMap ?m2 # []))
               (YStr ''127.0.0.1'') (YInt 8080)))"
    by blast
  from p1 p2 e1 e2 c1 c2 show ?thesis by blast
qed

section \<open>Required fields\<close>







section \<open>Explicit selections\<close>

lemma remdups_snoc: "remdups (xs @ [x]) = remdups (filter (\<lambda>y. y \<noteq> x) xs) @ [x]"
  by (induction xs) auto

lemma uniq_names_first_seen:
  "uniq_names seen names = rev (remdups (rev (filter (\<lambda>n. n \<noteq> [] \<and> n \<notin> seen) names)))"
proof (induction names arbitrary: seen)
  case Nil
  show ?case by simp
next
  case (Cons n names)
  have f: "filter (\<lambda>y. y \<noteq> n) (filter (\<lambda>k. k \<noteq> [] \<and> k \<notin> seen) names) =
           filter (\<lambda>k. k \<noteq> [] \<and> k \<notin> insert n seen) names"
    by (induction names) auto
  show ?case
  proof (cases "n \<noteq> [] \<and> n \<notin> seen")
    case True
    then have "uniq_names seen (n # names) = n # uniq_names (insert n seen) names" by simp
    also have "\<dots> = n # rev (remdups (rev (filter (\<lambda>k. k \<noteq> [] \<and> k \<notin> insert n seen) names)))"
      by (simp only: Cons.IH)
    also have "\<dots> = rev (remdups (rev (filter (\<lambda>k. k \<noteq> [] \<and> k \<notin> seen) names) @ [n]))"
      by (simp only: remdups_snoc rev_filter [symmetric] f rev_append rev.simps append.simps)
    also have "\<dots> = rev (remdups (rev (filter (\<lambda>k. k \<noteq> [] \<and> k \<notin> seen) (n # names))))"
      using True by simp
    finally show ?thesis .
  next
    case False
    then have "uniq_names seen (n # names) = uniq_names seen names" by auto
    with False show ?thesis by (auto simp: Cons.IH)
  qed
qed

lemma resolve_names_filter:
  "resolve_names dir ex names =
     (filter (\<lambda>n. \<not> ex (path_join dir (n @ ''.yml''))) names,
      map (\<lambda>n. path_join dir (n @ ''.yml'')) (filter (\<lambda>n. ex (path_join dir (n @ ''.yml''))) names))"
  by (induction names) (auto simp: Let_def)

text \<open>
  Claim C6, as the code has it. For a non-empty explicit selection, \<open>load_services\<close> ignores
  empty names, keeps the first occurrence of every other requested name in the order of
  first appearance, and looks for \<open>SERVICES_DIR/<name>.yml\<close> for each. If one or more of
  these files do not exist, the call raises a single \<open>SystemExit\<close> whose message lists all
  the names without a file, joined by commas, and no path is returned; otherwise it returns
  the paths in that order.
\<close>

theorem load_services_selection:
  assumes "selected \<noteq> []"
  shows "load_services root st (Some selected) =
     (let uniq = rev (remdups (rev (filter (\<lambda>n. n \<noteq> '''') selected)));
          missing = filter (\<lambda>n. \<not> path_exists st (path_join (SERVICES_DIR root) (n @ ''.yml''))) uniq
      in ([], if missing = []
              then Inr (map (\<lambda>n. path_join (SERVICES_DIR root) (n @ ''.yml'')) uniq)
              else Inl (SystemExit (''Service file(s) not found in '' @ SERVICES_DIR root @ '': ''
                                     @ join '', '' missing))))"
proof -
  have "filter (\<lambda>n. path_exists st (path_join (SERVICES_DIR root) (n @ ''.yml''))) xs = xs"
    if "filter (\<lambda>n. \<not> path_exists st (path_join (SERVICES_DIR root) (n @ ''.yml''))) xs = []" for xs
    using that by (induction xs) (auto split: if_splits)
  then show ?thesis
    using assms
    by (simp add: load_services_def load_selected_def uniq_names_first_seen resolve_names_filter Let_def)
qed

theorem load_services_selection_witness:
  "[''api'', ''web'', ''api'', ''db''] \<noteq> []
   \<and> load_services ''/srv/repo''
        \<lparr>glob_yml = [], path_exists = (\<lambda>p. p = ''/srv/repo/services/api.yml''),
           read_yaml = (\<lambda>p. LoadFailed '''')\<rparr>
        (Some [''api'', ''web'', ''api'', ''db'']) =
       ([], Inl (SystemExit ''Service file(s) not found in /srv/repo/services: web, db''))
   \<and> load_services ''/srv/repo''
        \<lparr>glob_yml = [], path_exists = (\<lambda>p. True), read_yaml = (\<lambda>p. LoadFailed '''')\<rparr>
        (Some [''web'', ''api'', ''web'']) =
       ([], Inr [''/srv/repo/services/web.yml'', ''/srv/repo/services/api.yml''])"
  using load_services_selection
          [of "[''api'', ''web'', ''api'', ''db'']" "''/srv/repo''"
              "\<lparr>glob_yml = [], path_exists = (\<lambda>p. p = ''/srv/repo/services/api.yml''),
                 read_yaml = (\<lambda>p. LoadFailed '''')\<rparr>"]
        load_services_selection
          [of "[''web'', ''api'', ''web'']" "''/srv/repo''"
              "\<lparr>glob_yml = [], path_exists = (\<lambda>p. True), read_yaml = (\<lambda>p. LoadFailed '''')\<rparr>"]
  by (simp add: Let_def SERVICES_DIR_def path_join_def)

text \<open>
  The claim as stated fails for an empty requested name: it has no descriptor file, and yet
  the call returns the empty list of paths and raises nothing.
\<close>

theorem empty_name_is_not_reported:
  "load_services ''/srv/repo''
     \<lparr>glob_yml = [], path_exists = (\<lambda>p. False), read_yaml = (\<lambda>p. LoadFailed '''')\<rparr>
     (Some ['''']) = ([], Inr [])"
  by (simp add: load_services_def load_selected_def)

section \<open>The exit status of a run\<close>

lemmas render_eval =
  render_service_def render_template_def nginx_replacements_def service_blocks_def
  build_nginx_blocks_def render_custom_locations_def build_server_blocks_def server_body_def
  full_body_def redirect_body_def https_body_def acme_head_def health_stub_def
  systemd_replacements_def nginx_dest_def systemd_dest_def TEMPLATE_DIR_def OUT_DIR_def
  NGINX_OUT_def SYSTEMD_OUT_def SERVICES_DIR_def path_join_def py_replace_def

lemma substitute_error: "substitute reps content = Inl e \<Longrightarrow> e = TypeError"
  by (induction reps content rule: substitute.induct) (auto split: yaml.splits)

lemma render_template_error:
  "snd (render_template tp dp reps fs) = Inl e \<Longrightarrow> e = TypeError \<or> e = FileNotFoundError tp"
  by (auto simp: render_template_def dest: substitute_error split: option.splits sum.splits)

lemma render_service_error:
  assumes "render_service repr root svc fs = (fs', Inl e)"
  shows "\<forall>msg. e \<noteq> SystemExit msg"
proof -
  let ?t1 = "render_template (path_join (TEMPLATE_DIR root) ''nginx.conf.tmpl'')
               (nginx_dest repr root svc) (nginx_replacements repr svc) fs"
  obtain fs1 r1 where t1: "?t1 = (fs1, r1)" by (cases ?t1)
  show ?thesis
  proof (cases r1)
    case (Inl e1)
    with t1 assms have "e = e1" by (simp add: render_service_def)
    moreover from t1 Inl have "snd ?t1 = Inl e1" by simp
    ultimately show ?thesis using render_template_error by blast
  next
    case (Inr u)
    with t1 assms have "snd (render_template (path_join (TEMPLATE_DIR root) ''systemd.service.tmpl'')
            (systemd_dest repr root svc) (systemd_replacements svc) fs1) = Inl e"
      by (simp add: render_service_def)
    then show ?thesis using render_template_error by blast
  qed
qed

lemma parse_service_lenient_error:
  assumes "parse_service repr False p loaded = (printed, Inl e)"
  shows "e = AttributeError"
proof (cases loaded)
  case (LoadFailed exc)
  with assms show ?thesis by (simp add: parse_service_def skip_def)
next
  case (Loaded v)
  show ?thesis
  proof (cases "py_or v (YMap [])")
    case (YMap data)
    with assms Loaded have pm: "parse_mapping repr False p data = (printed, Inl e)"
      by (simp add: parse_service_def)
    show ?thesis
    proof (cases "start_cmd_lower (get_field data ''start_cmd'' (YStr ''''))")
      case (Inl e')
      then have "e' = AttributeError"
        by (auto simp: start_cmd_lower_def split: yaml.splits)
      with pm Inl show ?thesis
        by (auto simp: parse_mapping_def Let_def split: prod.splits)
    next
      case (Inr lowered)
      with pm show ?thesis
        by (auto simp: parse_mapping_def Let_def skip_def split: prod.splits if_splits)
    qed
  qed (use assms Loaded in \<open>simp_all add: parse_service_def skip_def\<close>)
qed

lemma main_loop_lenient_error:
  "main_loop repr root st False svc_files r = (r', Some e) \<Longrightarrow> \<forall>msg. e \<noteq> SystemExit msg"
proof (induction svc_files arbitrary: r)
  case Nil
  then show ?case by simp
next
  case (Cons f rest)
  obtain printed res where ps: "parse_service repr False f (read_yaml st f) = (printed, res)"
    by (cases "parse_service repr False f (read_yaml st f)")
  show ?case
  proof (cases res)
    case (Inl e1)
    with ps Cons.prems have "e = e1" by simp
    with ps Inl parse_service_lenient_error show ?thesis by blast
  next
    case (Inr opt)
    show ?thesis
    proof (cases opt)
      case None
      with ps Inr Cons.prems Cons.IH show ?thesis by simp
    next
      case (Some parsed)
      obtain fs2 rr where rs: "render_service repr root parsed (files_of r) = (fs2, rr)"
        by (cases "render_service repr root parsed (files_of r)")
      show ?thesis
      proof (cases rr)
        case (Inl e2)
        with ps Inr Some rs Cons.prems have "e = e2" by simp
        with rs Inl render_service_error show ?thesis by blast
      next
        case (Inr u)
        with ps \<open>res = Inr opt\<close> Some rs Cons.prems Cons.IH show ?thesis by simp
      qed
    qed
  qed
qed

text \<open>
  Claim C5, as the code has it. A lenient run (no selection) never raises \<open>SystemExit\<close>:
  its final check returns 0 also when nothing was rendered. Every value \<open>main\<close> returns is
  0. A strict run that returns has rendered at least one descriptor. When the loop over the
  descriptor files completes, the run fails with \<open>No services rendered.\<close> if and only if
  it is strict and the list of rendered names is empty, and returns 0 otherwise.
\<close>

theorem main_exit_status:
  "((args_service = None \<or> args_service = Some []) \<longrightarrow>
       (\<forall>msg. snd (main repr root st args_service fs) \<noteq> Inl (SystemExit msg)))
   \<and> (\<forall>c. snd (main repr root st args_service fs) = Inr c \<longrightarrow> c = 0)
   \<and> (\<forall>c. args_service \<noteq> None \<and> args_service \<noteq> Some []
          \<and> snd (main repr root st args_service fs) = Inr c \<longrightarrow>
          rendered (fst (main repr root st args_service fs)) \<noteq> [])
   \<and> (\<forall>printed svc_files r.
         load_services root st args_service = (printed, Inr svc_files)
         \<and> main_loop repr root st (args_service \<noteq> None \<and> args_service \<noteq> Some []) svc_files
             \<lparr>out = printed, err = [], files_of = fs, rendered = []\<rparr> = (r, None) \<longrightarrow>
         snd (main repr root st args_service fs) =
           (if (args_service \<noteq> None \<and> args_service \<noteq> Some []) \<and> rendered r = []
            then Inl (SystemExit ''No services rendered.'') else Inr 0))"
proof (intro conjI allI impI)
  assume len: "args_service = None \<or> args_service = Some []"
  fix msg
  from len have ls: "load_services root st args_service = load_all root st"
    by (auto simp: load_services_def)
  obtain printed files where la: "load_all root st = (printed, Inr files)"
    by (cases "glob_yml st = []") (auto simp: load_all_def)
  obtain r' eo where ml: "main_loop repr root st False files
       \<lparr>out = printed, err = [], files_of = fs, rendered = []\<rparr> = (r', eo)"
    by (cases "main_loop repr root st False files \<lparr>out = printed, err = [], files_of = fs, rendered = []\<rparr>")
  have "snd (main repr root st args_service fs) =
          (case eo of None \<Rightarrow> Inr 0 | Some e \<Rightarrow> Inl e)"
    using len la ml
    by (elim disjE; cases eo) (simp_all add: main_def load_services_def Let_def)
  moreover have "e \<noteq> SystemExit msg" if "eo = Some e" for e
    using that ml main_loop_lenient_error by blast
  ultimately show "snd (main repr root st args_service fs) \<noteq> Inl (SystemExit msg)"
    by (cases eo) auto
next
  fix c
  assume "snd (main repr root st args_service fs) = Inr c"
  then show "c = 0"
    by (auto simp: main_def Let_def split: prod.splits sum.splits option.splits if_splits)
next
  fix c
  assume "args_service \<noteq> None \<and> args_service \<noteq> Some []
          \<and> snd (main repr root st args_service fs) = Inr c"
  then show "rendered (fst (main repr root st args_service fs)) \<noteq> []"
    by (auto simp: main_def Let_def split: prod.splits sum.splits option.splits if_splits)
next
  fix printed svc_files r
  assume "load_services root st args_service = (printed, Inr svc_files)
         \<and> main_loop repr root st (args_service \<noteq> None \<and> args_service \<noteq> Some []) svc_files
             \<lparr>out = printed, err = [], files_of = fs, rendered = []\<rparr> = (r, None)"
  then show "snd (main repr root st args_service fs) =
           (if (args_service \<noteq> None \<and> args_service \<noteq> Some []) \<and> rendered r = []
            then Inl (SystemExit ''No services rendered.'') else Inr 0)"
    by (simp add: main_def Let_def)
qed

theorem main_exit_status_witness:
  "snd (main (\<lambda>v. '''') ''/srv/repo''
          \<lparr>glob_yml = [], path_exists = (\<lambda>p. False), read_yaml = (\<lambda>p. LoadFailed '''')\<rparr>
          (Some ['''']) Map.empty) = Inl (SystemExit ''No services rendered.'')
   \<and> snd (main (\<lambda>v. '''') ''/srv/repo''
          \<lparr>glob_yml = [], path_exists = (\<lambda>p. True),
             read_yaml = (\<lambda>p. Loaded (YMap [(''name'', YStr ''api''), (''domain'', YStr ''api.example.com''),
                     (''upstream_port'', YInt 8080), (''working_dir'', YStr ''/srv/api''),
                     (''start_cmd'', YStr ''/usr/bin/api-server'')]))\<rparr>
          (Some [''api''])
          [''/srv/repo/templates/nginx.conf.tmpl'' \<mapsto> ''# vhost'',
           ''/srv/repo/templates/systemd.service.tmpl'' \<mapsto> ''# unit'']) = Inr 0
   \<and> rendered (fst (main (\<lambda>v. '''') ''/srv/repo''
          \<lparr>glob_yml = [], path_exists = (\<lambda>p. True),
             read_yaml = (\<lambda>p. Loaded (YMap [(''name'', YStr ''api''), (''domain'', YStr ''api.example.com''),
                     (''upstream_port'', YInt 8080), (''working_dir'', YStr ''/srv/api''),
                     (''start_cmd'', YStr ''/usr/bin/api-server'')]))\<rparr>
          (Some [''api''])
          [''/srv/repo/templates/nginx.conf.tmpl'' \<mapsto> ''# vhost'',
           ''/srv/repo/templates/systemd.service.tmpl'' \<mapsto> ''# unit''])) \<noteq> []
   \<and> snd (main (\<lambda>v. '''') ''/srv/repo''
          \<lparr>glob_yml = [''/srv/repo/services/api.yml''], path_exists = (\<lambda>p. True),
             read_yaml = (\<lambda>p. Loaded (YList [YInt 1]))\<rparr>
          None Map.empty) \<noteq> Inl (SystemExit ''No services rendered.'')"
proof -
  let ?R = "\<lambda>v::yaml. ''''"
  let ?st1 = "\<lparr>glob_yml = [], path_exists = (\<lambda>p. False), read_yaml = (\<lambda>p. LoadFailed '''')\<rparr>"
  let ?st2 = "\<lparr>glob_yml = [], path_exists = (\<lambda>p. True),
             read_yaml = (\<lambda>p. Loaded (YMap [(''name'', YStr ''api''), (''domain'', YStr ''api.example.com''),
                     (''upstream_port'', YInt 8080), (''working_dir'', YStr ''/srv/api''),
                     (''start_cmd'', YStr ''/usr/bin/api-server'')]))\<rparr>"
  let ?fs2 = "[''/srv/repo/templates/nginx.conf.tmpl'' \<mapsto> ''# vhost'',
           ''/srv/repo/templates/systemd.service.tmpl'' \<mapsto> ''# unit'']"
  let ?st3 = "\<lparr>glob_yml = [''/srv/repo/services/api.yml''], path_exists = (\<lambda>p. True),
             read_yaml = (\<lambda>p. Loaded (YList [YInt 1]))\<rparr>"
  have l1: "load_services ''/srv/repo'' ?st1 (Some ['''']) = ([], Inr [])"
    by (simp add: load_services_def load_selected_def)
  have m1: "main_loop ?R ''/srv/repo'' ?st1 (Some [''''] \<noteq> None \<and> Some [''''] \<noteq> Some []) []
              \<lparr>out = [], err = [], files_of = Map.empty, rendered = []\<rparr> =
            (\<lparr>out = [], err = [], files_of = Map.empty, rendered = []\<rparr>, None)"
    by simp
  from main_exit_status [of "Some ['''']" ?R "''/srv/repo''" ?st1 Map.empty] l1 m1
  have c1: "snd (main ?R ''/srv/repo'' ?st1 (Some ['''']) Map.empty) =
            Inl (SystemExit ''No services rendered.'')"
    by simp
  have e2: "snd (main ?R ''/srv/repo'' ?st2 (Some [''api'']) ?fs2) = Inr 0"
    by (simp add: main_def load_services_def load_selected_def parse_eval render_eval)
  from main_exit_status [of "Some [''api'']" ?R "''/srv/repo''" ?st2 ?fs2] e2
  have c2: "rendered (fst (main ?R ''/srv/repo'' ?st2 (Some [''api'']) ?fs2)) \<noteq> []"
    by simp
  from main_exit_status [of None ?R "''/srv/repo''" ?st3 Map.empty]
  have c3: "snd (main ?R ''/srv/repo'' ?st3 None Map.empty) \<noteq> Inl (SystemExit ''No services rendered.'')"
    by simp
  from c1 e2 c2 c3 show ?thesis by blast
qed

text \<open>
  The claim as stated fails: a lenient run over an empty store renders nothing and returns
  the exit status 0.
\<close>

theorem lenient_run_with_nothing_rendered_succeeds:
  "snd (main (\<lambda>v. '''') ''/srv/repo''
          \<lparr>glob_yml = [], path_exists = (\<lambda>p. False), read_yaml = (\<lambda>p. LoadFailed '''')\<rparr>
          None Map.empty) = Inr 0
   \<and> rendered (fst (main (\<lambda>v. '''') ''/srv/repo''
          \<lparr>glob_yml = [], path_exists = (\<lambda>p. False), read_yaml = (\<lambda>p. LoadFailed '''')\<rparr>
          None Map.empty)) = []"
  by (simp add: main_def load_services_def load_all_def)

section \<open>Placeholder substitution\<close>

lemma replace_from_skip:
  "replace_from old new k s = replace_from old new 0 (drop k s)"
proof (induction s arbitrary: k)
  case Nil
  show ?case by simp
next
  case (Cons c cs)
  show ?case
  proof (cases k)
    case 0
    then show ?thesis by simp
  next
    case (Suc j)
    with Cons.IH [of j] show ?thesis by simp
  qed
qed

lemma replace_from_absent:
  "old \<noteq> [] \<Longrightarrow> \<not> py_in old s \<Longrightarrow> replace_from old new 0 s = s"
  by (induction s) auto

lemma replace_from_first:
  assumes "old \<noteq> []" and "\<not> py_in old (a @ butlast old)"
  shows "replace_from old new 0 (a @ old @ b) = a @ new @ replace_from old new 0 b"
  using assms(2)
proof (induction a)
  case Nil
  from assms(1) obtain c cs where old: "old = c # cs" by (cases old) auto
  have "replace_from old new 0 (old @ b) = new @ replace_from old new (length cs) (cs @ b)"
    by (simp add: old)
  also have "replace_from old new (length cs) (cs @ b) = replace_from old new 0 b"
    by (subst replace_from_skip) simp
  finally show ?case by simp
next
  case (Cons x a)
  from Cons.prems have np: "\<not> prefix old (x # a @ butlast old)"
    and ni: "\<not> py_in old (a @ butlast old)" by auto
  have "\<not> prefix old (x # a @ old @ b)"
  proof
    assume p: "prefix old (x # a @ old @ b)"
    have q: "prefix (x # a @ butlast old) (x # a @ old @ b)"
      using assms(1) by (metis Cons_prefix_Cons append_butlast_last_id append.assoc prefixI same_prefix_prefix)
    have "length old \<le> length (x # a @ butlast old)" by simp
    from prefix_length_prefix [OF p q this] np show False by blast
  qed
  with Cons.IH [OF ni] show ?case by simp
qed

lemma substitute_strings_total:
  "\<exists>text. substitute (map (\<lambda>(k, w). (k, YStr w)) reps) content = Inr text"
  by (induction reps arbitrary: content) auto

lemma substitute_absent:
  "\<forall>(k, w) \<in> set reps. \<not> py_in (''__'' @ k @ ''__'') content \<Longrightarrow>
   substitute (map (\<lambda>(k, w). (k, YStr w)) reps) content = Inr content"
  by (induction reps) (auto simp: py_replace_def replace_from_absent)

text \<open>
  Claim C8, as the code has it. \<open>render_template\<close> takes the entries of the mapping in
  insertion order and applies \<open>str.replace\<close> for each to the text as it then stands. For one
  entry, the first occurrence of its token \<open>__KEY__\<close> becomes the value as literal text and
  the scan goes on behind it, so the value is not scanned for that token; a text without the
  token is left as it is. Later entries see the values that earlier entries inserted. A
  template in which no token of a string-valued mapping occurs is written unchanged, and
  with a string-valued mapping the substitution always produces a text, which is what the
  destination file holds afterwards.
\<close>

theorem render_template_substitution:
  "substitute ((key, YStr v) # rest) content =
     substitute rest (py_replace (''__'' @ key @ ''__'') v content)
   \<and> (\<not> py_in (''__'' @ key @ ''__'') (a @ butlast (''__'' @ key @ ''__'')) \<longrightarrow>
        py_replace (''__'' @ key @ ''__'') v (a @ (''__'' @ key @ ''__'') @ b) =
          a @ v @ py_replace (''__'' @ key @ ''__'') v b)
   \<and> (\<not> py_in (''__'' @ key @ ''__'') content \<longrightarrow>
        py_replace (''__'' @ key @ ''__'') v content = content)
   \<and> ((\<forall>(k, w) \<in> set reps. \<not> py_in (''__'' @ k @ ''__'') content) \<longrightarrow>
        substitute (map (\<lambda>(k, w). (k, YStr w)) reps) content = Inr content)
   \<and> (\<exists>res. substitute (map (\<lambda>(k, w). (k, YStr w)) reps) content = Inr res
         \<and> (fs tp = Some content \<longrightarrow>
              render_template tp dp (map (\<lambda>(k, w). (k, YStr w)) reps) fs =
                (fs(dp \<mapsto> res), Inr ())))"
proof -
  define t where "t = ''__'' @ key @ ''__''"
  have ne: "t \<noteq> []" by (simp add: t_def)
  have 1: "substitute ((key, YStr v) # rest) content = substitute rest (py_replace t v content)"
    by (simp add: t_def)
  have 2: "\<not> py_in t (a @ butlast t) \<longrightarrow> py_replace t v (a @ t @ b) = a @ v @ py_replace t v b"
    using ne by (simp add: py_replace_def replace_from_first)
  have 3: "\<not> py_in t content \<longrightarrow> py_replace t v content = content"
    using ne by (simp add: py_replace_def replace_from_absent)
  have 4: "(\<forall>(k, w) \<in> set reps. \<not> py_in (''__'' @ k @ ''__'') content) \<longrightarrow>
        substitute (map (\<lambda>(k, w). (k, YStr w)) reps) content = Inr content"
    using substitute_absent by blast
  obtain res where tx: "substitute (map (\<lambda>(k, w). (k, YStr w)) reps) content = Inr res"
    using substitute_strings_total by blast
  then have 5: "fs tp = Some content \<longrightarrow>
              render_template tp dp (map (\<lambda>(k, w). (k, YStr w)) reps) fs =
                (fs(dp \<mapsto> res), Inr ())"
    by (simp add: render_template_def)
  from 1 2 3 4 tx 5 show ?thesis unfolding t_def by blast
qed

theorem render_template_substitution_witness:
  "\<not> py_in (''__'' @ ''NAME'' @ ''__'') (''svc '' @ butlast (''__'' @ ''NAME'' @ ''__''))
   \<and> py_replace (''__'' @ ''NAME'' @ ''__'') ''api'' (''svc '' @ (''__'' @ ''NAME'' @ ''__'') @ '' x'') =
       ''svc '' @ ''api'' @ py_replace (''__'' @ ''NAME'' @ ''__'') ''api'' '' x''
   \<and> \<not> py_in (''__'' @ ''NAME'' @ ''__'') ''__USER__ x''
   \<and> py_replace (''__'' @ ''NAME'' @ ''__'') ''api'' ''__USER__ x'' = ''__USER__ x''
   \<and> substitute (map (\<lambda>(k, w). (k, YStr w)) [(''NAME'', ''api'')]) ''__USER__ x'' = Inr ''__USER__ x''
   \<and> fst (render_template ''unit.tmpl'' ''api.service'' (map (\<lambda>(k, w). (k, YStr w)) [(''NAME'', ''api'')])
          [''unit.tmpl'' \<mapsto> ''__USER__ x'']) ''api.service'' = Some ''__USER__ x''"
proof -
  have h1: "\<not> py_in (''__'' @ ''NAME'' @ ''__'') (''svc '' @ butlast (''__'' @ ''NAME'' @ ''__''))"
    by simp
  have h2: "\<not> py_in (''__'' @ ''NAME'' @ ''__'') ''__USER__ x''"
    by simp
  have h3: "\<forall>(k, w) \<in> set [(''NAME'', ''api'')]. \<not> py_in (''__'' @ k @ ''__'') ''__USER__ x''"
    by simp
  have h4: "[''unit.tmpl'' \<mapsto> ''__USER__ x''] ''unit.tmpl'' = Some ''__USER__ x''"
    by simp
  note t1 = render_template_substitution
    [where key = "''NAME''" and v = "''api''" and a = "''svc ''" and b = "'' x''"
       and content = "''__USER__ x''" and reps = "[(''NAME'', ''api'')]" and rest = "[]"
       and fs = "[''unit.tmpl'' \<mapsto> ''__USER__ x'']" and tp = "''unit.tmpl''" and dp = "''api.service''"]
  from t1 h1 have c1: "py_replace (''__'' @ ''NAME'' @ ''__'') ''api'' (''svc '' @ (''__'' @ ''NAME'' @ ''__'') @ '' x'') =
       ''svc '' @ ''api'' @ py_replace (''__'' @ ''NAME'' @ ''__'') ''api'' '' x''"
    by blast
  from t1 h2 have c2: "py_replace (''__'' @ ''NAME'' @ ''__'') ''api'' ''__USER__ x'' = ''__USER__ x''"
    by blast
  from t1 h3 have c3: "substitute (map (\<lambda>(k, w). (k, YStr w)) [(''NAME'', ''api'')]) ''__USER__ x'' = Inr ''__USER__ x''"
    by blast
  from t1 h4 c3 have c4: "fst (render_template ''unit.tmpl'' ''api.service'' (map (\<lambda>(k, w). (k, YStr w)) [(''NAME'', ''api'')])
          [''unit.tmpl'' \<mapsto> ''__USER__ x'']) ''api.service'' = Some ''__USER__ x''"
    by auto
  from h1 c1 h2 c2 c3 c4 show ?thesis by blast
qed

text \<open>
  The claim as stated fails: a token inside the value of an earlier entry is substituted by
  a later entry.
\<close>

theorem later_entry_rewrites_inserted_text:
  "fst (render_template ''nginx.conf.tmpl'' ''api.conf''
          [(''HTTP_BLOCK'', YStr ''see __HTTPS_BLOCK__''), (''HTTPS_BLOCK'', YStr ''tls'')]
          [''nginx.conf.tmpl'' \<mapsto> ''__HTTP_BLOCK__'']) ''api.conf'' = Some ''see tls''"
  by (simp add: render_template_def py_replace_def)

section \<open>Rendering twice\<close>

lemma last_path_join: "b \<noteq> [] \<Longrightarrow> last (path_join a b) = last b"
  by (simp add: path_join_def)

lemma last_nginx_dest: "last (nginx_dest repr root svc) = CHR ''f''"
  by (simp add: nginx_dest_def last_path_join)

lemma last_systemd_dest: "last (systemd_dest repr root svc) = CHR ''e''"
  by (simp add: systemd_dest_def last_path_join)

lemma last_template: 
  "last (path_join (TEMPLATE_DIR root) ''nginx.conf.tmpl'') = CHR ''l''"
  "last (path_join (TEMPLATE_DIR root) ''systemd.service.tmpl'') = CHR ''l''"
  by (simp_all add: last_path_join)

lemma dest_not_template:
  "nginx_dest repr root svc \<noteq> path_join (TEMPLATE_DIR root) ''nginx.conf.tmpl''"
  "nginx_dest repr root svc \<noteq> path_join (TEMPLATE_DIR root) ''systemd.service.tmpl''"
  "systemd_dest repr root svc \<noteq> path_join (TEMPLATE_DIR root) ''nginx.conf.tmpl''"
  "systemd_dest repr root svc \<noteq> path_join (TEMPLATE_DIR root) ''systemd.service.tmpl''"
  "nginx_dest repr root svc \<noteq> systemd_dest repr root svc"
proof -
  have ne: "\<And>x y :: string. last x \<noteq> last y \<Longrightarrow> x \<noteq> y" by auto
  show "nginx_dest repr root svc \<noteq> path_join (TEMPLATE_DIR root) ''nginx.conf.tmpl''"
    by (rule ne) (simp add: last_nginx_dest last_template)
  show "nginx_dest repr root svc \<noteq> path_join (TEMPLATE_DIR root) ''systemd.service.tmpl''"
    by (rule ne) (simp add: last_nginx_dest last_template)
  show "systemd_dest repr root svc \<noteq> path_join (TEMPLATE_DIR root) ''nginx.conf.tmpl''"
    by (rule ne) (simp add: last_systemd_dest last_template)
  show "systemd_dest repr root svc \<noteq> path_join (TEMPLATE_DIR root) ''systemd.service.tmpl''"
    by (rule ne) (simp add: last_systemd_dest last_template)
  show "nginx_dest repr root svc \<noteq> systemd_dest repr root svc"
    by (rule ne) (simp add: last_nginx_dest last_systemd_dest)
qed

lemma render_twice:
  assumes "d1 \<noteq> t1" "d1 \<noteq> t2" "d2 \<noteq> t1" "d2 \<noteq> t2" "d1 \<noteq> d2"
  shows "(case render_template t1 d1 r1 (fst (case render_template t1 d1 r1 fs of
                 (fs1, Inl e) \<Rightarrow> (fs1, Inl e)
               | (fs1, Inr u) \<Rightarrow> render_template t2 d2 r2 fs1)) of
            (fs1, Inl e) \<Rightarrow> (fs1, Inl e)
          | (fs1, Inr u) \<Rightarrow> render_template t2 d2 r2 fs1) =
         (case render_template t1 d1 r1 fs of
            (fs1, Inl e) \<Rightarrow> (fs1, Inl e)
          | (fs1, Inr u) \<Rightarrow> render_template t2 d2 r2 fs1)"
proof (cases "fs t1")
  case None
  then show ?thesis by (simp add: render_template_def)
next
  case c1: (Some c1)
  show ?thesis
  proof (cases "substitute r1 c1")
    case (Inl e)
    with c1 show ?thesis by (simp add: render_template_def)
  next
    case x1: (Inr x1)
    show ?thesis
    proof (cases "fs t2")
      case None
      with c1 x1 assms show ?thesis by (simp add: render_template_def)
    next
      case c2: (Some c2)
      show ?thesis
      proof (cases "substitute r2 c2")
        case (Inl e)
        with c1 x1 c2 assms show ?thesis by (simp add: render_template_def)
      next
        case x2: (Inr x2)
        have "(fs(d1 \<mapsto> x1, d2 \<mapsto> x2))(d1 \<mapsto> x1) = fs(d1 \<mapsto> x1, d2 \<mapsto> x2)"
          using assms by (intro ext) simp
        with c1 x1 c2 x2 assms show ?thesis by (simp add: render_template_def)
      qed
    qed
  qed
qed

text \<open>
  Claim C9. Rendering a descriptor a second time, on the files that the first rendering
  left, returns the same outcome and leaves the same files: the nginx and the systemd output
  of the second run are byte for byte those of the first. The output paths end in
  \<open>.conf\<close> and \<open>.service\<close> and the templates in \<open>.tmpl\<close>, so no run overwrites what
  it reads.
\<close>

theorem render_service_idempotent:
  "render_service repr root svc (fst (render_service repr root svc fs)) =
   render_service repr root svc fs"
  unfolding render_service_def
  by (rule render_twice) (simp_all add: dest_not_template)

theorem render_service_idempotent_witness:
  "render_service (\<lambda>v. '''') ''/srv/repo''
     \<lparr>NAME = YStr ''api'', DOMAIN = YStr ''api.example.com'',
        UPSTREAM_HOST = YStr ''127.0.0.1'', UPSTREAM_PORT = ''8080'',
        WORKING_DIR = YStr ''/srv/api'', USER = YStr ''www-data'',
        START_CMD = YStr ''/usr/bin/api-server'',
        STOP_CMD = YStr ''/bin/true'', SVC_TYPE = ''simple'',
        REMAIN_AFTER_EXIT = ''no'', RESTART = ''always'',
        HEALTH_PATH = YStr ''/health'', STATIC_ROOT = YStr [],
        MIGRATE_CMD = YStr [], ALLOW_PLAIN_HTTP = False,
        LOCATIONS = []\<rparr>
     (fst (render_service (\<lambda>v. '''') ''/srv/repo''
       \<lparr>NAME = YStr ''api'', DOMAIN = YStr ''api.example.com'',
        UPSTREAM_HOST = YStr ''127.0.0.1'', UPSTREAM_PORT = ''8080'',
        WORKING_DIR = YStr ''/srv/api'', USER = YStr ''www-data'',
        START_CMD = YStr ''/usr/bin/api-server'',
        STOP_CMD = YStr ''/bin/true'', SVC_TYPE = ''simple'',
        REMAIN_AFTER_EXIT = ''no'', RESTART = ''always'',
        HEALTH_PATH = YStr ''/health'', STATIC_ROOT = YStr [],
        MIGRATE_CMD = YStr [], ALLOW_PLAIN_HTTP = False,
        LOCATIONS = []\<rparr>
       [''/srv/repo/templates/nginx.conf.tmpl'' \<mapsto> ''# vhost'',
        ''/srv/repo/templates/systemd.service.tmpl'' \<mapsto> ''Type=__TYPE__ Restart=__RESTART__'']))
   = ([''/srv/repo/templates/nginx.conf.tmpl'' \<mapsto> ''# vhost'',
       ''/srv/repo/templates/systemd.service.tmpl'' \<mapsto> ''Type=__TYPE__ Restart=__RESTART__'',
       ''/srv/repo/generated/nginx/api.conf'' \<mapsto> ''# vhost'',
       ''/srv/repo/generated/systemd/api.service'' \<mapsto> ''Type=simple Restart=always''],
      Inr ())"
proof -
  let ?svc = "\<lparr>NAME = YStr ''api'', DOMAIN = YStr ''api.example.com'',
        UPSTREAM_HOST = YStr ''127.0.0.1'', UPSTREAM_PORT = ''8080'',
        WORKING_DIR = YStr ''/srv/api'', USER = YStr ''www-data'',
        START_CMD = YStr ''/usr/bin/api-server'',
        STOP_CMD = YStr ''/bin/true'', SVC_TYPE = ''simple'',
        REMAIN_AFTER_EXIT = ''no'', RESTART = ''always'',
        HEALTH_PATH = YStr ''/health'', STATIC_ROOT = YStr [],
        MIGRATE_CMD = YStr [], ALLOW_PLAIN_HTTP = False,
        LOCATIONS = []\<rparr>"
  let ?fs = "[''/srv/repo/templates/nginx.conf.tmpl'' \<mapsto> ''# vhost'',
        ''/srv/repo/templates/systemd.service.tmpl'' \<mapsto> ''Type=__TYPE__ Restart=__RESTART__'']"
  have e: "render_service (\<lambda>v. '''') ''/srv/repo'' ?svc ?fs =
      ([''/srv/repo/templates/nginx.conf.tmpl'' \<mapsto> ''# vhost'',
       ''/srv/repo/templates/systemd.service.tmpl'' \<mapsto> ''Type=__TYPE__ Restart=__RESTART__'',
       ''/srv/repo/generated/nginx/api.conf'' \<mapsto> ''# vhost'',
       ''/srv/repo/generated/systemd/api.service'' \<mapsto> ''Type=simple Restart=always''],
      Inr ())"
    by (simp add: render_eval)
  from render_service_idempotent [of "\<lambda>v. ''''" "''/srv/repo''" ?svc ?fs] e
  show ?thesis by simp
qed

section \<open>The plain and the encrypted segment\<close>

text \<open>
  \<open>build_server_blocks\<close> calls \<open>server_body\<close> with \<open>include_tls=False\<close> only, so the
  plain segment is the full body whatever \<open>ALLOW_PLAIN_HTTP\<close> is; the redirect alternative of
  \<open>server_body\<close> is never taken.
\<close>

lemma http_block_is_full_body:
  "fst (build_server_blocks repr svc root_directive location_root fallback_location extra_locations) =
     full_body (py_str repr (DOMAIN svc)) (py_str repr (HEALTH_PATH svc))
       location_root fallback_location extra_locations"
  by (simp add: build_server_blocks_def server_body_def Let_def)

text \<open>The encrypted segment names both certificate files under the descriptor's domain.\<close>

lemma py_in_append_right: "py_in s y \<Longrightarrow> py_in s (x @ y)"
  unfolding py_in_iff by (metis append.assoc)

lemma https_body_fullchain:
  "py_in (''ssl_certificate /etc/letsencrypt/live/'' @ d @ ''/fullchain.pem;'')
     (https_body d h root_directive location_root fallback_location extra_locations)"
proof -
  have piece: "py_in (''ssl_certificate /etc/letsencrypt/live/'' @ d @ ''/fullchain.pem;'')
      (''    ssl_certificate /etc/letsencrypt/live/'' @ d @ ''/fullchain.pem;\<newline>'' @ rest)" for rest
  proof -
    have "''    ssl_certificate /etc/letsencrypt/live/'' @ d @ ''/fullchain.pem;\<newline>'' @ rest =
          ''    '' @ (''ssl_certificate /etc/letsencrypt/live/'' @ d @ ''/fullchain.pem;'')
          @ (''\<newline>'' @ rest)"
      by simp
    then show ?thesis by (simp only: py_in_middle)
  qed
  show ?thesis
    unfolding https_body_def
    by (rule py_in_append_right, rule py_in_append_right, rule py_in_append_right,
        rule py_in_append_right, rule py_in_append_right, rule py_in_append_right,
        rule py_in_append_right, rule piece)
qed

lemma https_body_privkey:
  "py_in (''ssl_certificate_key /etc/letsencrypt/live/'' @ d @ ''/privkey.pem;'')
     (https_body d h root_directive location_root fallback_location extra_locations)"
proof -
  have piece: "py_in (''ssl_certificate_key /etc/letsencrypt/live/'' @ d @ ''/privkey.pem;'')
      (''    ssl_certificate_key /etc/letsencrypt/live/'' @ d @ ''/privkey.pem;\<newline>'' @ rest)" for rest
  proof -
    have "''    ssl_certificate_key /etc/letsencrypt/live/'' @ d @ ''/privkey.pem;\<newline>'' @ rest =
          ''    '' @ (''ssl_certificate_key /etc/letsencrypt/live/'' @ d @ ''/privkey.pem;'')
          @ (''\<newline>'' @ rest)"
      by simp
    then show ?thesis by (simp only: py_in_middle)
  qed
  show ?thesis
    unfolding https_body_def
    by (rule py_in_append_right, rule py_in_append_right, rule py_in_append_right,
        rule py_in_append_right, rule py_in_append_right, rule py_in_append_right,
        rule py_in_append_right, rule py_in_append_right, rule py_in_append_right,
        rule py_in_append_right, rule piece)
qed

lemma https_block_certificate_paths:
  assumes "\<not> ALLOW_PLAIN_HTTP svc"
  shows "py_in (''ssl_certificate /etc/letsencrypt/live/'' @ py_str repr (DOMAIN svc) @ ''/fullchain.pem;'')
           (snd (build_server_blocks repr svc root_directive location_root fallback_location extra_locations))
       \<and> py_in (''ssl_certificate_key /etc/letsencrypt/live/'' @ py_str repr (DOMAIN svc) @ ''/privkey.pem;'')
           (snd (build_server_blocks repr svc root_directive location_root fallback_location extra_locations))"
proof -
  have "snd (build_server_blocks repr svc root_directive location_root fallback_location extra_locations) =
        https_body (py_str repr (DOMAIN svc)) (py_str repr (HEALTH_PATH svc)) root_directive
          location_root fallback_location extra_locations"
    using assms by (simp add: build_server_blocks_def Let_def)
  then show ?thesis
    by (simp only: https_body_fullchain https_body_privkey simp_thms)
qed

text \<open>
  Claim C1 at a descriptor that leaves \<open>allow_plain_http\<close> unset: the plain segment that
  \<open>render_service\<close> puts into the nginx template is the ACME passthrough followed by the main
  route, which proxies to the upstream, and the health stub. It is not the body that
  redirects to the encrypted scheme.
\<close>

theorem plain_segment_is_the_full_body:
  \<open>fst (service_blocks (\<lambda>v. '''')
     \<lparr>NAME = YStr ''api'', DOMAIN = YStr ''api.example.com'',
        UPSTREAM_HOST = YStr ''127.0.0.1'', UPSTREAM_PORT = ''8080'',
        WORKING_DIR = YStr ''/srv/api'', USER = YStr ''www-data'',
        START_CMD = YStr ''/usr/bin/api-server'',
        STOP_CMD = YStr ''/bin/true'', SVC_TYPE = ''simple'',
        REMAIN_AFTER_EXIT = ''no'', RESTART = ''always'',
        HEALTH_PATH = YStr ''/health'', STATIC_ROOT = YStr [],
        MIGRATE_CMD = YStr [], ALLOW_PLAIN_HTTP = False,
        LOCATIONS = []\<rparr>) =
     ''server {\<newline>'' @
     ''    listen 80;\<newline>'' @
     ''    server_name api.example.com;\<newline>\<newline>'' @
     ''    # ACME challenge\<newline>'' @
     ''    location /.well-known/acme-challenge/ {\<newline>'' @
     ''        root /var/www/certbot;\<newline>'' @
     ''    }\<newline>\<newline>'' @
     ''    # Main location\<newline>'' @
     ''    location / {\<newline>'' @
     ''        proxy_pass http://127.0.0.1:8080;\<newline>'' @
     ''        proxy_set_header Host $host;\<newline>'' @
     ''        proxy_set_header X-Real-IP $remote_addr;\<newline>'' @
     ''        proxy_set_header X-Forwarded-For $proxy_add_x_forwarded_for;\<newline>'' @
     ''        proxy_set_header X-Forwarded-Proto $scheme;\<newline>'' @
     ''    }\<newline>\<newline>'' @
     ''    # Health endpoint\<newline>'' @
     ''    location /health {\<newline>'' @
     ''        access_log off;\<newline>'' @
     ''        return 200 "healthy'' @ [CHR 0x5C] @ ''n";\<newline>'' @
     ''        add_header Content-Type text/plain;\<newline>'' @
     ''    }\<newline>'' @
     ''}\<newline>''
   \<and> fst (service_blocks (\<lambda>v. '''')
     \<lparr>NAME = YStr ''api'', DOMAIN = YStr ''api.example.com'',
        UPSTREAM_HOST = YStr ''127.0.0.1'', UPSTREAM_PORT = ''8080'',
        WORKING_DIR = YStr ''/srv/api'', USER = YStr ''www-data'',
        START_CMD = YStr ''/usr/bin/api-server'',
        STOP_CMD = YStr ''/bin/true'', SVC_TYPE = ''simple'',
        REMAIN_AFTER_EXIT = ''no'', RESTART = ''always'',
        HEALTH_PATH = YStr ''/health'', STATIC_ROOT = YStr [],
        MIGRATE_CMD = YStr [], ALLOW_PLAIN_HTTP = False,
        LOCATIONS = []\<rparr>) \<noteq>
     redirect_body ''api.example.com''\<close>
  by (simp add: render_eval)

end
